theory Spec2Isabelle
  imports Main "HOL-Library.AList"
begin

text \<open>
  A model of \<open>useCodeMirror.tsx\<close>: the class \<open>CodeMirrorInstance\<close> (constructor,
  \<open>dispose\<close>, \<open>update\<close>, \<open>updateDocIfRequired\<close>, \<open>handleChanges\<close>), the configuration
  defaulting (\<open>useEditorConfiguration\<close>, \<open>getDefaultMode\<close>, \<open>modeAliases\<close>),
  \<open>normalizeLineEndings\<close> and the hook \<open>useCodeMirror\<close> with its two effects. Mutation
  is explicit state passing, an exception is the value \<open>Inl TypeError\<close>, and the editor
  library and the framework's memo cells and ref objects are modelled by what they do to
  the values the source hands them.
\<close>

section \<open>JavaScript values\<close>

text \<open>
  Configuration values, option values and mode specifications are untyped JavaScript
  values. Objects and functions are references: \<open>JObj n s\<close> is the object with identity
  \<open>n\<close>, and \<open>s\<close> is the string it converts to where it is used as a property key
  (\<open>[object Object]\<close> for a plain object). \<open>JInherited s\<close> is the member named \<open>s\<close> that
  every plain object inherits from \<open>Object.prototype\<close>: a built-in function, or
  \<open>Object.prototype\<close> itself for \<open>__proto__\<close>. An object keeps its string, so HOL equality
  on \<open>jsval\<close> is JavaScript's strict equality (\<open>===\<close>). Numbers are integers here (no NaN,
  no fractions).
\<close>

datatype jsval =
    JUndefined | JNull | JBool bool | JNum int | JStr string | JObj nat string
  | JInherited string

fun truthy :: "jsval \<Rightarrow> bool" where
  "truthy JUndefined = False"
| "truthy JNull = False"
| "truthy (JBool b) = b"
| "truthy (JNum n) = (n \<noteq> 0)"
| "truthy (JStr s) = (s \<noteq> [])"
| "truthy (JObj r s) = True"
| "truthy (JInherited s) = True"

text \<open>
  The names of the members of \<open>Object.prototype\<close>. A read \<open>obj[key]\<close> on an object
  literal finds the object's own property, else the inherited member of that name, else
  \<open>undefined\<close>.
\<close>

definition object_prototype_members :: "string list" where
  "object_prototype_members =
     [''constructor'', ''__defineGetter__'', ''__defineSetter__'', ''hasOwnProperty'',
      ''__lookupGetter__'', ''__lookupSetter__'', ''isPrototypeOf'', ''propertyIsEnumerable'',
      ''toString'', ''valueOf'', ''__proto__'', ''toLocaleString'']"

text \<open>Truthiness of an optional boolean property (\<open>undefined\<close> is falsy).\<close>

fun is_true :: "bool option \<Rightarrow> bool" where
  "is_true None = False"
| "is_true (Some b) = b"

text \<open>
  An \<open>EditorConfiguration\<close> object: its own keys in insertion order, each with its value.
  \<open>config_get cfg key\<close> is the property read \<open>cfg[key]\<close> (\<open>undefined\<close> for a missing key),
  \<open>config_keys cfg\<close> is \<open>Object.keys(cfg)\<close>. The source reads a configuration at its own
  keys and at the names \<open>extraKeys\<close>, \<open>mode\<close> and \<open>readOnly\<close>, none of which names a member
  of \<open>Object.prototype\<close>, so the read is the read of an own property.
\<close>

type_synonym EditorConfiguration = "(string \<times> jsval) list"

definition config_get :: "EditorConfiguration \<Rightarrow> string \<Rightarrow> jsval" where
  "config_get cfg key = (case map_of cfg key of None \<Rightarrow> JUndefined | Some v \<Rightarrow> v)"

definition config_keys :: "EditorConfiguration \<Rightarrow> string list" where
  "config_keys cfg = map fst cfg"

section \<open>Options\<close>

record Position =
  line :: nat
  ch :: nat

record SetScrollOptions =
  scroll_x :: jsval
  scroll_y :: jsval

record SetSelectionOptions =
  anchor :: Position
  head :: Position

record SelectionOptions =
  ranges :: "SetSelectionOptions list option"
  sel_focus :: "bool option"

text \<open>A callback or loader passed by the caller is a function reference.\<close>

type_synonym callback = nat

type_synonym doc_ref = nat

text \<open>
  \<open>UseCodeMirrorOptions\<close>, with the type of the \<open>config\<close> property as a parameter: the
  hook receives an optional configuration, the instance one that was resolved
  (\<open>CodeMirrorInstanceOptions\<close>). The property \<open>value\<close> is \<open>value_opt\<close> here; it is typed
  \<open>string\<close> in the source, which nevertheless tests it against \<open>undefined\<close>.
\<close>

record 'c UseCodeMirrorOptions =
  autoCursor :: "bool option"
  autoScroll :: "bool option"
  cursor :: "Position option"
  doc :: "doc_ref option"
  docName :: "string option"
  scroll :: "SetScrollOptions option"
  selection :: "SelectionOptions option"
  value_opt :: "string option"
  config :: 'c
  onBlur :: "callback option"
  onChange :: "callback option"
  onCursor :: "callback option"
  onFocus :: "callback option"
  onGutterClick :: "callback option"
  onScroll :: "callback option"
  onSelection :: "callback option"
  onViewportChange :: "callback option"
  importCodeMirror :: "callback option"
  importCodeMirrorAddons :: "callback option"

type_synonym CodeMirrorInstanceOptions = "EditorConfiguration UseCodeMirrorOptions"

section \<open>The editor library\<close>

text \<open>
  The editor library is not part of the repository. It is modelled by what its calls do
  to the state the adapter reads back: documents are objects with identity, held in a
  heap (a reference below \<open>next_doc\<close> is a document that was created in this world); a
  document holds its text, its mode, its direction, its cursor and its selections; an
  editor displays one document and holds one value per option, which \<open>getOption\<close>
  reads; every call that changes the editor or a document is recorded, in order, in
  \<open>calls\<close>.

  The mode and the direction belong to the document: \<open>swapDoc\<close> overwrites the editor's
  option \<open>mode\<close> with the mode of the document it attaches, and \<open>setOption\<close> writes a
  new \<open>mode\<close> or \<open>direction\<close> to the displayed document.

  Three facts vary with the installed library, the framework build and the values at
  hand, and are fields of the world: \<open>loose_eq\<close> is JavaScript's \<open>==\<close> on the values
  (\<open>setOption\<close> returns early, storing nothing, when the new value is \<open>==\<close> to the
  current one and the option is not \<open>mode\<close>); \<open>attach_sets_direction\<close> says that
  \<open>swapDoc\<close> overwrites the option \<open>direction\<close> as well, which later versions of the
  library do; \<open>refs_sealed\<close> says that the framework seals the objects \<open>useRef\<close> returns,
  which its development build does.
\<close>

datatype error = TypeError

record Doc =
  doc_value :: string
  modeOption :: jsval
  doc_direction :: jsval
  doc_cursor :: Position
  doc_selections :: "SetSelectionOptions list"

datatype call =
    ReplaceChild nat
  | On string
  | SwapDoc doc_ref
  | SetValue string
  | SetOption string jsval
  | SetSelections doc_ref "SetSelectionOptions list"
  | SetCursor doc_ref Position "bool option"
  | Focus
  | ScrollTo jsval jsval

record cm_world =
  heap :: "doc_ref \<Rightarrow> Doc"
  next_doc :: doc_ref
  calls :: "call list"
  loose_eq :: "jsval \<Rightarrow> jsval \<Rightarrow> bool"
  attach_sets_direction :: bool
  refs_sealed :: bool

record Editor =
  ed_doc :: doc_ref
  ed_options :: "string \<Rightarrow> jsval"

record CodeMirrorConstructor =
  defaults :: "string \<Rightarrow> jsval"

text \<open>
  \<open>new CodeMirror.Doc(text, mode)\<close>: a fresh document with the given text and mode, the
  direction \<open>ltr\<close>, its cursor at the start. The library reads the lines of \<open>text\<close>, which
  raises when \<open>text\<close> is \<open>undefined\<close>. A direction is \<open>rtl\<close> or \<open>ltr\<close>: any value but
  \<open>rtl\<close> counts as \<open>ltr\<close>.
\<close>

definition as_direction :: "jsval \<Rightarrow> jsval" where
  "as_direction v = (if v = JStr ''rtl'' then JStr ''rtl'' else JStr ''ltr'')"


definition new_Doc :: "cm_world \<Rightarrow> string option \<Rightarrow> jsval \<Rightarrow> error + (doc_ref \<times> cm_world)" where
  "new_Doc w txt m =
     (case txt of
        None \<Rightarrow> Inl TypeError
      | Some s \<Rightarrow>
          Inr (next_doc w,
               w\<lparr>heap := (heap w)(next_doc w :=
                     \<lparr>doc_value = s, modeOption = m, doc_direction = JStr ''ltr'',
                      doc_cursor = \<lparr>line = 0, ch = 0\<rparr>, doc_selections = []\<rparr>),
                  next_doc := Suc (next_doc w)\<rparr>))"

text \<open>
  \<open>new CodeMirror(callback, config)\<close>: the editor's options are the library's defaults
  overridden by the keys of \<open>config\<close>; it displays a fresh document of its own, made
  from the options \<open>value\<close>, \<open>mode\<close> and \<open>direction\<close>, and hands its node to the callback,
  which replaces the placeholder node.
\<close>

definition new_CodeMirror ::
  "cm_world \<Rightarrow> CodeMirrorConstructor \<Rightarrow> nat \<Rightarrow> EditorConfiguration \<Rightarrow> Editor \<times> cm_world" where
  "new_CodeMirror w CM placeholderNode cfg =
     (let opts = (\<lambda>key. case map_of cfg key of None \<Rightarrow> defaults CM key | Some v \<Rightarrow> v);
          own = \<lparr>doc_value = (case opts ''value'' of JStr s \<Rightarrow> s | _ \<Rightarrow> []),
                 modeOption = opts ''mode'',
                 doc_direction = as_direction (opts ''direction''),
                 doc_cursor = \<lparr>line = 0, ch = 0\<rparr>, doc_selections = []\<rparr>
      in (\<lparr>ed_doc = next_doc w, ed_options = opts\<rparr>,
          w\<lparr>heap := (heap w)(next_doc w := own),
             next_doc := Suc (next_doc w),
             calls := calls w @ [ReplaceChild placeholderNode]\<rparr>))"

definition getDoc :: "Editor \<Rightarrow> doc_ref" where
  "getDoc ed = ed_doc ed"

definition getValue :: "cm_world \<Rightarrow> Editor \<Rightarrow> string" where
  "getValue w ed = doc_value (heap w (ed_doc ed))"

definition getCursor :: "cm_world \<Rightarrow> doc_ref \<Rightarrow> Position" where
  "getCursor w d = doc_cursor (heap w d)"

definition getOption :: "Editor \<Rightarrow> string \<Rightarrow> jsval" where
  "getOption ed key = ed_options ed key"

text \<open>
  \<open>swapDoc(doc)\<close>: the editor displays \<open>doc\<close>, and its option \<open>mode\<close> becomes the mode of
  \<open>doc\<close> (and its option \<open>direction\<close> the direction of \<open>doc\<close>, where the library does that).
\<close>

definition swapDoc :: "cm_world \<Rightarrow> Editor \<Rightarrow> doc_ref \<Rightarrow> cm_world \<times> Editor" where
  "swapDoc w ed d =
     (let opts = (ed_options ed)(''mode'' := modeOption (heap w d))
      in (w\<lparr>calls := calls w @ [SwapDoc d]\<rparr>,
          ed\<lparr>ed_doc := d,
             ed_options := (if attach_sets_direction w
                            then opts(''direction'' := doc_direction (heap w d))
                            else opts)\<rparr>))"

definition setValue :: "cm_world \<Rightarrow> Editor \<Rightarrow> string \<Rightarrow> cm_world" where
  "setValue w ed v =
     w\<lparr>heap := (heap w)(ed_doc ed := (heap w (ed_doc ed))\<lparr>doc_value := v\<rparr>),
       calls := calls w @ [SetValue v]\<rparr>"

text \<open>
  \<open>setOption(key, v)\<close>: nothing is stored when \<open>v\<close> is \<open>==\<close> to the current value and the
  key is not \<open>mode\<close>; otherwise the option is replaced, and a mode or a direction is
  written to the displayed document. The call is recorded in both cases.
\<close>

definition setOption :: "cm_world \<Rightarrow> Editor \<Rightarrow> string \<Rightarrow> jsval \<Rightarrow> cm_world \<times> Editor" where
  "setOption w ed key v =
     (if loose_eq w (ed_options ed key) v \<and> key \<noteq> ''mode''
      then (w\<lparr>calls := calls w @ [SetOption key v]\<rparr>, ed)
      else
        (w\<lparr>heap :=
             (if key = ''mode''
              then (heap w)(ed_doc ed := (heap w (ed_doc ed))\<lparr>modeOption := v\<rparr>)
              else if key = ''direction''
              then (heap w)(ed_doc ed := (heap w (ed_doc ed))\<lparr>doc_direction := as_direction v\<rparr>)
              else heap w),
           calls := calls w @ [SetOption key v]\<rparr>,
         ed\<lparr>ed_options := (ed_options ed)(key := v)\<rparr>))"

definition setSelections :: "cm_world \<Rightarrow> doc_ref \<Rightarrow> SetSelectionOptions list \<Rightarrow> cm_world" where
  "setSelections w d rs =
     w\<lparr>heap := (heap w)(d := (heap w d)\<lparr>doc_selections := rs\<rparr>),
       calls := calls w @ [SetSelections d rs]\<rparr>"

text \<open>
  \<open>doc.setCursor(pos, undefined, options)\<close>; the last argument is recorded as \<open>None\<close> for
  \<open>undefined\<close> and as \<open>Some b\<close> for the object \<open>{ scroll: b }\<close>.
\<close>

definition setCursor :: "cm_world \<Rightarrow> doc_ref \<Rightarrow> Position \<Rightarrow> bool option \<Rightarrow> cm_world" where
  "setCursor w d pos scroll_opt =
     w\<lparr>heap := (heap w)(d := (heap w d)\<lparr>doc_cursor := pos\<rparr>),
       calls := calls w @ [SetCursor d pos scroll_opt]\<rparr>"

definition focus :: "cm_world \<Rightarrow> cm_world" where
  "focus w = w\<lparr>calls := calls w @ [Focus]\<rparr>"

definition scrollTo :: "cm_world \<Rightarrow> jsval \<Rightarrow> jsval \<Rightarrow> cm_world" where
  "scrollTo w x y = w\<lparr>calls := calls w @ [ScrollTo x y]\<rparr>"

definition subscribe :: "cm_world \<Rightarrow> string \<Rightarrow> cm_world" where
  "subscribe w event = w\<lparr>calls := calls w @ [On event]\<rparr>"

section \<open>normalizeLineEndings\<close>

text \<open>\<open>str.replace(/\r\n|\r/g, '\n')\<close>; the empty string is returned as it is.\<close>

fun normalizeLineEndings :: "string \<Rightarrow> string" where
  "normalizeLineEndings [] = []"
| "normalizeLineEndings [c] = (if c = CHR 0x0D then [CHR 0x0A] else [c])"
| "normalizeLineEndings (c # d # cs) =
     (if c = CHR 0x0D then
        (if d = CHR 0x0A then CHR 0x0A # normalizeLineEndings cs
         else CHR 0x0A # normalizeLineEndings (d # cs))
      else c # normalizeLineEndings (d # cs))"

section \<open>CodeMirrorInstance\<close>

record CodeMirrorInstance =
  CodeMirror :: "CodeMirrorConstructor option"
  docs :: "string \<rightharpoonup> doc_ref"
  editor :: "Editor option"
  options :: CodeMirrorInstanceOptions

text \<open>The registry key of the options: \<open>if (!docName) { docName = '' }\<close>.\<close>

definition registry_key :: "'c UseCodeMirrorOptions \<Rightarrow> string" where
  "registry_key opts = (case docName opts of None \<Rightarrow> [] | Some n \<Rightarrow> n)"

text \<open>
  \<open>updateDocIfRequired\<close>: the document of the current options is the \<open>doc\<close> passed in
  them, else the one registered under \<open>docName\<close> (\<open>''\<close> when absent), else a new one made
  from \<open>value\<close> and the mode, which is registered. That document is (re)registered under
  the name and swapped into the editor unless the editor displays it already.

  The registry \<open>docs\<close> is an object literal, \<open>{}\<close> at first. Under a name that nothing
  was registered under and that names a member of \<open>Object.prototype\<close>, the read
  \<open>this.docs[docName]\<close> yields that member; it is truthy, so no document is created, and
  handing it to \<open>swapDoc\<close> raises inside the library.
\<close>

definition updateDocIfRequired ::
  "cm_world \<Rightarrow> CodeMirrorInstance \<Rightarrow> error + (doc_ref \<times> cm_world \<times> CodeMirrorInstance)" where
  "updateDocIfRequired w this =
     (let mode = config_get (config (options this)) ''mode'';
          name = registry_key (options this);
          found =
            (case doc (options this) of
               Some d \<Rightarrow> Inr (d, w, this)
             | None \<Rightarrow>
                 (case docs this name of
                    Some d \<Rightarrow> Inr (d, w, this)
                  | None \<Rightarrow>
                      if name \<in> set object_prototype_members then Inl TypeError
                      else
                        (case CodeMirror this of
                           None \<Rightarrow> Inl TypeError
                         | Some CM \<Rightarrow>
                             (case new_Doc w (value_opt (options this)) mode of
                                Inl e \<Rightarrow> Inl e
                              | Inr (d, w1) \<Rightarrow>
                                  Inr (d, w1, this\<lparr>docs := (docs this)(name \<mapsto> d)\<rparr>)))))
      in case found of
           Inl e \<Rightarrow> Inl e
         | Inr (d, w1, this1) \<Rightarrow>
             (let this2 = this1\<lparr>docs := (docs this1)(name \<mapsto> d)\<rparr>
              in case editor this2 of
                   None \<Rightarrow> Inl TypeError
                 | Some ed \<Rightarrow>
                     if d \<noteq> getDoc ed
                     then (let (w2, ed2) = swapDoc w1 ed d
                           in Inr (d, w2, this2\<lparr>editor := Some ed2\<rparr>))
                     else Inr (d, w1, this2)))"

text \<open>
  The constructor: stores the options, creates the editor from the configuration,
  brings in the document and subscribes the eight handlers.
\<close>

definition event_names :: "string list" where
  "event_names = [''blur'', ''changes'', ''scroll'', ''cursor'', ''focus'', ''gutterClick'',
                  ''beforeSelectionChange'', ''viewportChange'']"

definition new_CodeMirrorInstance ::
  "cm_world \<Rightarrow> CodeMirrorConstructor \<Rightarrow> nat \<Rightarrow> CodeMirrorInstanceOptions
     \<Rightarrow> error + (cm_world \<times> CodeMirrorInstance)" where
  "new_CodeMirrorInstance w CM placeholderNode opts =
     (let (ed, w1) = new_CodeMirror w CM placeholderNode (config opts);
          this = \<lparr>CodeMirror = Some CM, docs = Map.empty, editor = Some ed, options = opts\<rparr>
      in case updateDocIfRequired w1 this of
           Inl e \<Rightarrow> Inl e
         | Inr (d, w2, this2) \<Rightarrow> Inr (fold (\<lambda>ev w'. subscribe w' ev) event_names w2, this2))"

text \<open>
  \<open>dispose\<close>: swaps a throwaway empty document into the editor and deletes the
  \<open>editor\<close> and \<open>CodeMirror\<close> properties.
\<close>

definition dispose :: "cm_world \<Rightarrow> CodeMirrorInstance \<Rightarrow> error + (cm_world \<times> CodeMirrorInstance)" where
  "dispose w this =
     (case editor this of
        None \<Rightarrow> Inr (w, this)
      | Some ed \<Rightarrow>
          (case CodeMirror this of
             None \<Rightarrow> Inl TypeError
           | Some CM \<Rightarrow>
               (case new_Doc w (Some []) JUndefined of
                  Inl e \<Rightarrow> Inl e
                | Inr (d, w1) \<Rightarrow>
                    (let (w2, ed2) = swapDoc w1 ed d
                     in Inr (w2, this\<lparr>editor := None, CodeMirror := None\<rparr>)))))"

text \<open>
  The cursor that \<open>update\<close> captures before it changes anything
  (\<open>if (!options.autoCursor && options.autoCursor !== undefined)\<close>), \<open>None\<close> for the
  initial \<open>{ cursor: null }\<close>.
\<close>

definition preserve_cursor ::
  "cm_world \<Rightarrow> Editor \<Rightarrow> 'c UseCodeMirrorOptions \<Rightarrow> Position option" where
  "preserve_cursor w ed opts =
     (if \<not> is_true (autoCursor opts) \<and> autoCursor opts \<noteq> None
      then Some (getCursor w (getDoc ed)) else None)"

text \<open>
  The configuration keys whose value differs from the editor's live option
  (\<open>configKeys.filter(key => this.editor.getOption(key) !== this.options.config[key])\<close>).
\<close>

definition configDelta :: "Editor \<Rightarrow> EditorConfiguration \<Rightarrow> string list" where
  "configDelta ed cfg =
     filter (\<lambda>key. getOption ed key \<noteq> config_get cfg key) (config_keys cfg)"

text \<open>
  \<open>update\<close>. The local \<open>oldOptions\<close> is bound to the incoming options, as in the source.
\<close>

definition update ::
  "cm_world \<Rightarrow> CodeMirrorInstance \<Rightarrow> CodeMirrorInstanceOptions
     \<Rightarrow> error + (cm_world \<times> CodeMirrorInstance)" where
  "update w this opts =
     (let oldOptions = Some opts;
          this0 = this\<lparr>options := opts\<rparr>
      in case updateDocIfRequired w this0 of
           Inl e \<Rightarrow> Inl e
         | Inr (d, w1, this1) \<Rightarrow>
             (case editor this1 of
                None \<Rightarrow> Inl TypeError
              | Some ed \<Rightarrow>
                  (let preserved = preserve_cursor w1 ed opts;
                       (w2, didUpdateValue) =
                         (case value_opt opts of
                            None \<Rightarrow> (w1, False)
                          | Some v \<Rightarrow>
                              if normalizeLineEndings (getValue w1 ed) \<noteq> normalizeLineEndings v
                                 \<and> (case oldOptions of
                                      None \<Rightarrow> True
                                    | Some old \<Rightarrow> value_opt old \<noteq> value_opt opts)
                              then (setValue w1 ed v, True)
                              else (w1, False));
                       cfg = config (options this1);
                       (w3, ed3) =
                         fold (\<lambda>key (w', ed'). setOption w' ed' key (config_get cfg key))
                           (configDelta ed cfg) (w2, ed);
                       w4 = (if didUpdateValue
                             then (case selection opts of
                                     None \<Rightarrow> w3
                                   | Some s \<Rightarrow>
                                       (case ranges s of
                                          None \<Rightarrow> w3
                                        | Some rs \<Rightarrow>
                                            (let w' = setSelections w3 d rs
                                             in if is_true (sel_focus s) then focus w' else w')))
                             else w3);
                       w5 = (case cursor opts of
                               None \<Rightarrow> w4
                             | Some c \<Rightarrow>
                                 (let w' = (if truthy (getOption ed3 ''autofocus'')
                                            then focus w4 else w4)
                                  in setCursor w' d
                                       (case preserved of None \<Rightarrow> c | Some p \<Rightarrow> p)
                                       (if is_true (autoScroll opts) then None else Some False)));
                       w6 = (case scroll opts of
                               None \<Rightarrow> w5
                             | Some s \<Rightarrow> scrollTo w5 (scroll_x s) (scroll_y s))
                   in Inr (w6, this1\<lparr>editor := Some ed3\<rparr>))))"

section \<open>Change notifications\<close>

record EditorChange =
  change_from :: Position
  change_to :: Position
  change_text :: "string list"
  removed :: "string list"
  origin :: "string option"

text \<open>An invocation of the user's \<open>onChange\<close> callback with its four arguments.\<close>

datatype callback_call =
  OnChange callback string "string option" "EditorChange list" doc_ref

definition handleChanges ::
  "cm_world \<Rightarrow> CodeMirrorInstance \<Rightarrow> Editor \<Rightarrow> EditorChange list \<Rightarrow> callback_call list" where
  "handleChanges w this ed changes =
     (if length changes = 1
         \<and> (case changes of [] \<Rightarrow> False | c # cs \<Rightarrow> origin c = Some ''setValue'')
      then []
      else if \<not> truthy (config_get (config (options this)) ''readOnly'')
      then (case onChange (options this) of
              None \<Rightarrow> []
            | Some f \<Rightarrow> [OnChange f (getValue w ed) (docName (options this)) changes (getDoc ed)])
      else [])"

section \<open>Observations and example states\<close>

text \<open>The calls made between two states of the world, and tests on a recorded call.\<close>

fun is_SetCursor :: "call \<Rightarrow> bool" where
  "is_SetCursor (SetCursor d p s) = True"
| "is_SetCursor c = False"

fun is_SetValue :: "call \<Rightarrow> bool" where
  "is_SetValue (SetValue v) = True"
| "is_SetValue c = False"

definition new_calls :: "cm_world \<Rightarrow> cm_world \<Rightarrow> call list" where
  "new_calls w w' = drop (length (calls w)) (calls w')"

fun is_SetOption :: "call \<Rightarrow> bool" where
  "is_SetOption (SetOption key v) = True"
| "is_SetOption c = False"

text \<open>
  An empty world, a library without defaults, and an options object that sets only
  \<open>value\<close>, \<open>docName\<close> and \<open>config\<close>. In the example worlds \<open>==\<close> holds between identical
  values only, \<open>swapDoc\<close> leaves the option \<open>direction\<close> alone, and ref objects are not
  sealed; \<open>world_dev\<close> is the empty world of a framework build that seals them, and
  \<open>world_loose\<close> one in which the number 2 and the string \<open>2\<close> are \<open>==\<close>, as they are in
  JavaScript.
\<close>

definition blank_doc :: Doc where
  "blank_doc = \<lparr>doc_value = [], modeOption = JUndefined, doc_direction = JStr ''ltr'',
                 doc_cursor = \<lparr>line = 0, ch = 0\<rparr>, doc_selections = []\<rparr>"

definition world0 :: cm_world where
  "world0 = \<lparr>heap = (\<lambda>d. blank_doc), next_doc = 0, calls = [],
             loose_eq = (\<lambda>a b. a = b), attach_sets_direction = False, refs_sealed = False\<rparr>"

definition world_dev :: cm_world where
  "world_dev = world0\<lparr>refs_sealed := True\<rparr>"

definition world_loose :: cm_world where
  "world_loose =
     world0\<lparr>loose_eq := (\<lambda>a b. a = b \<or> (a = JNum 2 \<and> b = JStr ''2'')
                                 \<or> (a = JStr ''2'' \<and> b = JNum 2))\<rparr>"

definition CM0 :: CodeMirrorConstructor where
  "CM0 = \<lparr>defaults = (\<lambda>key. JUndefined)\<rparr>"

definition plain_options ::
  "string \<Rightarrow> string \<Rightarrow> EditorConfiguration \<Rightarrow> CodeMirrorInstanceOptions" where
  "plain_options v n cfg =
     \<lparr>autoCursor = None, autoScroll = None, cursor = None, doc = None, docName = Some n,
      scroll = None, selection = None, value_opt = Some v, config = cfg,
      onBlur = None, onChange = None, onCursor = None, onFocus = None,
      onGutterClick = None, onScroll = None, onSelection = None, onViewportChange = None,
      importCodeMirror = None, importCodeMirrorAddons = None\<rparr>"

text \<open>
  A world holding one document (text \<open>a\<close>, cursor at line 1, column 2) and an
  instance whose editor displays it, registered under \<open>x.js\<close>; two change records.
\<close>

definition world1 :: cm_world where
  "world1 =
     \<lparr>heap = (\<lambda>d. blank_doc)
         (0 := blank_doc\<lparr>doc_value := ''a'', doc_cursor := \<lparr>line = 1, ch = 2\<rparr>\<rparr>),
      next_doc = 1, calls = [],
      loose_eq = (\<lambda>a b. a = b), attach_sets_direction = False, refs_sealed = False\<rparr>"

definition editor1 :: Editor where
  "editor1 = \<lparr>ed_doc = 0, ed_options = (\<lambda>key. JUndefined)\<rparr>"

definition instance1 :: "CodeMirrorInstanceOptions \<Rightarrow> CodeMirrorInstance" where
  "instance1 opts =
     \<lparr>CodeMirror = Some CM0, docs = [''x.js'' \<mapsto> 0], editor = Some editor1, options = opts\<rparr>"

definition typed_change :: EditorChange where
  "typed_change =
     \<lparr>change_from = \<lparr>line = 0, ch = 0\<rparr>, change_to = \<lparr>line = 0, ch = 0\<rparr>,
      change_text = [''x''], removed = [[]], origin = Some ''+input''\<rparr>"

definition setValue_change :: EditorChange where
  "setValue_change =
     \<lparr>change_from = \<lparr>line = 0, ch = 0\<rparr>, change_to = \<lparr>line = 0, ch = 1\<rparr>,
      change_text = [''b''], removed = [''a''], origin = Some ''setValue''\<rparr>"

section \<open>Configuration defaulting\<close>

text \<open>
  \<open>modeAliases\<close>, an object literal with five keys of its own. The read
  \<open>modeAliases[mode]\<close> turns \<open>mode\<close> into a property key: a string is its own key, an
  object converts to its string; the keys of the other values (\<open>undefined\<close>, \<open>null\<close>,
  \<open>true\<close>, \<open>false\<close>, a numeral, the source text of a built-in function) name no property
  of the object. The read yields the alias for one of the five keys, the inherited member
  for a name of \<open>Object.prototype\<close>, and \<open>undefined\<close> otherwise.
\<close>

definition modeAliases :: "(string \<times> string) list" where
  "modeAliases =
     [(''js'', ''jsx''), (''html'', ''htmlmixed''), (''md'', ''markdown''),
      (''mdx'', ''markdown''), (''scss'', ''text/x-scss'')]"

definition modeAliases_member :: "string \<Rightarrow> jsval" where
  "modeAliases_member key =
     (case map_of modeAliases key of
        Some a \<Rightarrow> JStr a
      | None \<Rightarrow> if key \<in> set object_prototype_members then JInherited key else JUndefined)"

fun modeAliases_at :: "jsval \<Rightarrow> jsval" where
  "modeAliases_at (JStr s) = modeAliases_member s"
| "modeAliases_at (JObj r s) = modeAliases_member s"
| "modeAliases_at v = JUndefined"

text \<open>\<open>modeAliases[mode] || mode\<close>.\<close>

definition mode_alias :: "jsval \<Rightarrow> jsval" where
  "mode_alias mode =
     (if truthy (modeAliases_at mode) then modeAliases_at mode else mode)"

text \<open>\<open>str.split(sep)\<close> for a one-character separator: never empty, \<open>[""]\<close> for \<open>""\<close>.\<close>

fun split_on :: "char \<Rightarrow> string \<Rightarrow> string list" where
  "split_on sep [] = [[]]"
| "split_on sep (c # cs) =
     (if c = sep then [] # split_on sep cs
      else (case split_on sep cs of [] \<Rightarrow> [[c]] | p # ps \<Rightarrow> (c # p) # ps))"

text \<open>
  \<open>getDefaultMode\<close>: \<open>docName && docName.split('.').reverse()[0]\<close>; a falsy \<open>docName\<close>
  (\<open>undefined\<close> or \<open>''\<close>) is returned as it is.
\<close>

definition getDefaultMode :: "string option \<Rightarrow> jsval" where
  "getDefaultMode name =
     (case name of
        None \<Rightarrow> JUndefined
      | Some n \<Rightarrow>
          if n = [] then JStr []
          else (case rev (split_on CHR ''.'' n) of [] \<Rightarrow> JUndefined | x # xs \<Rightarrow> JStr x))"

text \<open>
  The framework's \<open>useMemo\<close>: a cell holds the dependencies and the value of the last
  computation; the cached value is returned when every dependency equals the previous
  one at the same position, compared up to the shorter of the two lists.
\<close>

definition areHookInputsEqual :: "jsval list \<Rightarrow> jsval list \<Rightarrow> bool" where
  "areHookInputsEqual nextDeps prevDeps = list_all (\<lambda>(a, b). a = b) (zip nextDeps prevDeps)"

definition memo_hit :: "(jsval list \<times> 'a) option \<Rightarrow> jsval list \<Rightarrow> 'a option" where
  "memo_hit cell deps =
     (case cell of
        None \<Rightarrow> None
      | Some (prevDeps, v) \<Rightarrow> if areHookInputsEqual deps prevDeps then Some v else None)"

text \<open>
  The two memo cells of \<open>useEditorConfiguration\<close>, and a counter for the identity of
  the objects it creates. \<open>defaultMatchTagsConfig\<close> is one fixed object.
\<close>

record config_memo =
  extraKeys_cell :: "(jsval list \<times> jsval) option"
  config_cell :: "(jsval list \<times> EditorConfiguration) option"
  next_obj :: nat

definition defaultMatchTagsConfig :: jsval where
  "defaultMatchTagsConfig = JObj 0 ''[object Object]''"

text \<open>The object literal \<open>{ ...base, ...rest }\<close>: a key of \<open>rest\<close> replaces the value of a
  key that is there and is appended otherwise.\<close>

definition spread :: "EditorConfiguration \<Rightarrow> EditorConfiguration \<Rightarrow> EditorConfiguration" where
  "spread base rest = fold (\<lambda>(k, v) acc. AList.update k v acc) rest base"

text \<open>
  \<open>useEditorConfiguration\<close>. The merged key map \<open>{...defaultExtraKeysConfig, ...extraKeys}\<close>
  is a new object each time it is computed; its contents are not modelled.
\<close>

definition useEditorConfiguration ::
  "config_memo \<Rightarrow> EditorConfiguration option \<Rightarrow> string option
     \<Rightarrow> EditorConfiguration \<times> config_memo" where
  "useEditorConfiguration m cfg_opt name =
     (let cfg = (case cfg_opt of None \<Rightarrow> [] | Some c \<Rightarrow> c);
          extraKeys = config_get cfg ''extraKeys'';
          mode0 = config_get cfg ''mode'';
          rest = filter (\<lambda>(k, v). k \<noteq> ''extraKeys'' \<and> k \<noteq> ''mode'') cfg;
          (extraKeysConfig, m1) =
            (case memo_hit (extraKeys_cell m) [extraKeys] of
               Some v \<Rightarrow> (v, m)
             | None \<Rightarrow>
                 (case extraKeys of
                    JStr s \<Rightarrow> (extraKeys, m\<lparr>extraKeys_cell := Some ([extraKeys], extraKeys)\<rparr>)
                  | _ \<Rightarrow>
                      (JObj (next_obj m) ''[object Object]'',
                       m\<lparr>extraKeys_cell :=
                           Some ([extraKeys], JObj (next_obj m) ''[object Object]''),
                         next_obj := Suc (next_obj m)\<rparr>)));
          mode = (if \<not> truthy mode0 then getDefaultMode name else mode0);
          deps = extraKeys # mode # map snd rest
      in case memo_hit (config_cell m1) deps of
           Some c \<Rightarrow> (c, m1)
         | None \<Rightarrow>
             (let c = spread
                        [(''autoCloseBrackets'', JBool True),
                         (''indentWithTabs'', JBool False),
                         (''extraKeys'', extraKeysConfig),
                         (''keyMap'', JStr ''sublime''),
                         (''matchBrackets'', JBool True),
                         (''matchTags'', defaultMatchTagsConfig),
                         (''mode'', mode_alias mode),
                         (''scrollbarStyle'', JStr ''simple''),
                         (''smartIndent'', JBool False),
                         (''styleActiveLine'', JBool True),
                         (''tabSize'', JNum 2)]
                        rest
              in (c, m1\<lparr>config_cell := Some (deps, c)\<rparr>)))"

text \<open>
  What the cached configuration must satisfy for its mode to be right: it was computed
  from the mode among its dependencies. Every cell written by \<open>useEditorConfiguration\<close>
  does.
\<close>

definition memo_ok :: "config_memo \<Rightarrow> bool" where
  "memo_ok m =
     (case config_cell m of
        None \<Rightarrow> True
      | Some (deps, c) \<Rightarrow>
          (case deps of
             e # mode # vs \<Rightarrow> config_get c ''mode'' = mode_alias mode
           | _ \<Rightarrow> False))"

definition memo0 :: config_memo where
  "memo0 = \<lparr>extraKeys_cell = None, config_cell = None, next_obj = 1\<rparr>"

text \<open>
  The file-extension suffix in the words of the specification: the substring after the
  last \<open>.\<close> of the name (the whole name when it holds no \<open>.\<close>).
\<close>

definition after_last_dot :: "string \<Rightarrow> string" where
  "after_last_dot n = rev (takeWhile (\<lambda>c. c \<noteq> CHR ''.'') (rev n))"

section \<open>The hook\<close>

text \<open>
  The options object the hook passes on: \<open>{ ...unmemoizedOptions, config }\<close>. (It is
  memoised on \<open>[config, unmemoizedOptions]\<close>, which are all its inputs.)
\<close>

definition with_config :: "'a UseCodeMirrorOptions \<Rightarrow> 'b \<Rightarrow> 'b UseCodeMirrorOptions" where
  "with_config opts c =
     \<lparr>autoCursor = autoCursor opts, autoScroll = autoScroll opts, cursor = cursor opts,
      doc = doc opts, docName = docName opts, scroll = scroll opts,
      selection = selection opts, value_opt = value_opt opts, config = c,
      onBlur = onBlur opts, onChange = onChange opts, onCursor = onCursor opts,
      onFocus = onFocus opts, onGutterClick = onGutterClick opts, onScroll = onScroll opts,
      onSelection = onSelection opts, onViewportChange = onViewportChange opts,
      importCodeMirror = importCodeMirror opts,
      importCodeMirrorAddons = importCodeMirrorAddons opts\<rparr>"

text \<open>
  The state of one use of the hook: its memo cells, its four refs, the local
  \<open>isMounted\<close> of the mount effect, and the promise \<open>Promise.all([...])\<close> that the effect
  waits for (\<open>Pending\<close> with the two loaders that were started, \<open>None\<close> for the default
  one). A ref that was deleted or never set is \<open>None\<close>; the ref callback and the node
  promise it resolves carry the same number.
\<close>

datatype load_state = NotStarted | Pending "callback option" "callback option" | Settled

record hook_state =
  memo :: config_memo
  initialOptionsRef :: CodeMirrorInstanceOptions
  instanceRef :: "CodeMirrorInstance option"
  externalRef :: "nat option"
  nodePromiseRef :: "nat option"
  next_promise :: nat
  isMounted :: bool
  load :: load_state

record ReactCodeMirror =
  rc_config :: EditorConfiguration
  rc_editor :: "Editor option"
  rc_ref :: "nat option"

text \<open>
  The body of \<open>useCodeMirror\<close> for one render; \<open>None\<close> is the first render, which
  initialises the refs. It returns the hook's result, the options for this render's
  effects, and the state.
\<close>

definition useCodeMirror ::
  "hook_state option \<Rightarrow> EditorConfiguration option UseCodeMirrorOptions
     \<Rightarrow> ReactCodeMirror \<times> CodeMirrorInstanceOptions \<times> hook_state" where
  "useCodeMirror prev unmemoizedOptions =
     (let (cfg, m) =
            useEditorConfiguration (case prev of None \<Rightarrow> memo0 | Some s \<Rightarrow> memo s)
              (config unmemoizedOptions) (docName unmemoizedOptions);
          opts = with_config unmemoizedOptions cfg;
          s0 = (case prev of
                  None \<Rightarrow>
                    \<lparr>memo = m, initialOptionsRef = opts, instanceRef = None,
                     externalRef = None, nodePromiseRef = None, next_promise = 0,
                     isMounted = False, load = NotStarted\<rparr>
                | Some s \<Rightarrow> s\<lparr>memo := m\<rparr>);
          s1 = (case externalRef s0 of
                  None \<Rightarrow>
                    s0\<lparr>nodePromiseRef := Some (next_promise s0),
                       externalRef := Some (next_promise s0),
                       next_promise := Suc (next_promise s0)\<rparr>
                | Some r \<Rightarrow> s0);
          ed = (case instanceRef s1 of None \<Rightarrow> None | Some i \<Rightarrow> editor i)
      in (\<lparr>rc_config = cfg, rc_editor = ed, rc_ref = externalRef s1\<rparr>, opts, s1))"

text \<open>The returned \<open>focus\<close> function: \<open>() => editor && editor.focus()\<close>.\<close>

definition call_focus :: "ReactCodeMirror \<Rightarrow> cm_world \<Rightarrow> cm_world" where
  "call_focus r w = (case rc_editor r of None \<Rightarrow> w | Some ed \<Rightarrow> focus w)"

text \<open>The layout effect, run after every render.\<close>

definition layoutEffect ::
  "CodeMirrorInstanceOptions \<Rightarrow> cm_world \<times> hook_state \<Rightarrow> error + (cm_world \<times> hook_state)" where
  "layoutEffect opts st =
     (case st of (w, s) \<Rightarrow>
        (case instanceRef s of
           Some i \<Rightarrow>
             (case update w i opts of
                Inl e \<Rightarrow> Inl e
              | Inr (w', i') \<Rightarrow> Inr (w', s\<lparr>instanceRef := Some i'\<rparr>))
         | None \<Rightarrow> Inr (w, s\<lparr>initialOptionsRef := opts\<rparr>)))"

text \<open>
  The mount effect (dependencies \<open>[]\<close>: it runs once): it sets \<open>isMounted\<close> and starts
  the load. \<open>onLoaded\<close> is the callback given to \<open>then\<close>, run when the load resolves with
  the node and the library.
\<close>

definition mountEffect :: "CodeMirrorInstanceOptions \<Rightarrow> hook_state \<Rightarrow> hook_state" where
  "mountEffect opts s =
     s\<lparr>isMounted := True, load := Pending (importCodeMirror opts) (importCodeMirrorAddons opts)\<rparr>"

definition onLoaded ::
  "nat \<Rightarrow> CodeMirrorConstructor \<Rightarrow> cm_world \<times> hook_state \<Rightarrow> error + (cm_world \<times> hook_state)" where
  "onLoaded node CM st =
     (case st of (w, s) \<Rightarrow>
        (case load s of
           Pending a b \<Rightarrow>
             if isMounted s
             then (case new_CodeMirrorInstance w CM node (initialOptionsRef s) of
                     Inl e \<Rightarrow> Inl e
                   | Inr (w', i) \<Rightarrow> Inr (w', s\<lparr>instanceRef := Some i, load := Settled\<rparr>))
             else Inr (w, s\<lparr>load := Settled\<rparr>)
         | _ \<Rightarrow> Inr (w, s)))"

text \<open>
  \<open>cleanup\<close> is the function the mount effect returns. It clears \<open>isMounted\<close>, disposes
  of the instance when there is one, and then deletes the property \<open>current\<close> of three
  refs. The module is strict code, so the first \<open>delete\<close> raises when the ref objects
  are sealed, and the refs keep what they hold. The state lives on after an exception:
  \<open>cleanup\<close> returns the exception, if any, beside the state it leaves.
\<close>

definition cleanup :: "cm_world \<times> hook_state \<Rightarrow> error option \<times> (cm_world \<times> hook_state)" where
  "cleanup st =
     (case st of (w, s) \<Rightarrow>
        (let s1 = s\<lparr>isMounted := False\<rparr>;
             disposed =
               (case instanceRef s1 of
                  None \<Rightarrow> Inr (w, s1)
                | Some i \<Rightarrow>
                    (case dispose w i of
                       Inl e \<Rightarrow> Inl e
                     | Inr (w', i') \<Rightarrow> Inr (w', s1\<lparr>instanceRef := Some i'\<rparr>)))
         in case disposed of
              Inl e \<Rightarrow> (Some e, (w, s1))
            | Inr (w2, s2) \<Rightarrow>
                if refs_sealed w2 then (Some TypeError, (w2, s2))
                else (None, (w2, s2\<lparr>instanceRef := None, externalRef := None,
                                   nodePromiseRef := None\<rparr>))))"

text \<open>
  The first commit (render, layout effect, mount effect), and what can happen to a
  mounted hook afterwards: another render, the resolution of the load, the unmount.
\<close>

definition mount ::
  "cm_world \<Rightarrow> EditorConfiguration option UseCodeMirrorOptions
     \<Rightarrow> error + (cm_world \<times> hook_state)" where
  "mount w unmemoizedOptions =
     (case useCodeMirror None unmemoizedOptions of (r, opts, s) \<Rightarrow>
        (case layoutEffect opts (w, s) of
           Inl e \<Rightarrow> Inl e
         | Inr (w', s') \<Rightarrow> Inr (w', mountEffect opts s')))"

datatype hook_event =
    Render "EditorConfiguration option UseCodeMirrorOptions"
  | Loaded nat CodeMirrorConstructor
  | Unmount

fun step :: "hook_event \<Rightarrow> cm_world \<times> hook_state \<Rightarrow> error + (cm_world \<times> hook_state)" where
  "step (Render unmemoizedOptions) (w, s) =
     (case useCodeMirror (Some s) unmemoizedOptions of (r, opts, s') \<Rightarrow>
        layoutEffect opts (w, s'))"
| "step (Loaded node CM) (w, s) = onLoaded node CM (w, s)"
| "step Unmount (w, s) =
     (case cleanup (w, s) of (None, st') \<Rightarrow> Inr st' | (Some e, st') \<Rightarrow> Inl e)"

fun run :: "hook_event list \<Rightarrow> cm_world \<times> hook_state \<Rightarrow> error + (cm_world \<times> hook_state)" where
  "run [] st = Inr st"
| "run (ev # evs) st = (case step ev st of Inl e \<Rightarrow> Inl e | Inr st' \<Rightarrow> run evs st')"

text \<open>Options for the hook that set only \<open>value\<close> and \<open>docName\<close>.\<close>

definition plain_use_options ::
  "string \<Rightarrow> string \<Rightarrow> EditorConfiguration option UseCodeMirrorOptions" where
  "plain_use_options v n =
     \<lparr>autoCursor = None, autoScroll = None, cursor = None, doc = None, docName = Some n,
      scroll = None, selection = None, value_opt = Some v, config = None,
      onBlur = None, onChange = None, onCursor = None, onFocus = None,
      onGutterClick = None, onScroll = None, onSelection = None, onViewportChange = None,
      importCodeMirror = None, importCodeMirrorAddons = None\<rparr>"

section \<open>Properties of the library calls\<close>

lemma setOption_step:
  assumes "setOption w ed k v = (w', ed')"
  shows "ed_doc ed' = ed_doc ed" "next_doc w' = next_doc w"
    "calls w' = calls w @ [SetOption k v]"
    "d' \<noteq> ed_doc ed \<Longrightarrow> heap w' d' = heap w d'"
    "doc_value (heap w' d) = doc_value (heap w d)"
    "modeOption (heap w' (ed_doc ed)) = (if k = ''mode'' then v else modeOption (heap w (ed_doc ed)))"
  using assms by (auto simp: setOption_def split: if_splits)

lemma fold_setOption:
  assumes "fold (\<lambda>key (w', ed'). setOption w' ed' key (f key)) ks (w, ed) = (w', ed')"
  shows "ed_doc ed' = ed_doc ed \<and> next_doc w' = next_doc w \<and>
         calls w' = calls w @ map (\<lambda>k. SetOption k (f k)) ks \<and>
         (\<forall>d'. d' \<noteq> ed_doc ed \<longrightarrow> heap w' d' = heap w d') \<and>
         (\<forall>d. doc_value (heap w' d) = doc_value (heap w d)) \<and>
         modeOption (heap w' (ed_doc ed)) =
           (if ''mode'' \<in> set ks then f ''mode'' else modeOption (heap w (ed_doc ed)))"
  using assms
proof (induction ks arbitrary: w ed)
  case Nil
  then show ?case by simp
next
  case (Cons k ks)
  obtain w1 ed1 where s: "setOption w ed k (f k) = (w1, ed1)"
    by (cases "setOption w ed k (f k)")
  with Cons.prems have
    "fold (\<lambda>key (w', ed'). setOption w' ed' key (f key)) ks (w1, ed1) = (w', ed')" by simp
  from Cons.IH[OF this] setOption_step[OF s] show ?case by auto
qed

section \<open>Properties of updateDocIfRequired and update\<close>

lemma updateDocIfRequired_InrD:
  assumes "updateDocIfRequired w this = Inr (d, w1, this1)"
  shows "\<exists>ed ed1. editor this = Some ed \<and> editor this1 = Some ed1 \<and> ed_doc ed1 = d \<and>
           (d = getDoc ed \<longrightarrow> ed1 = ed) \<and>
           (d \<noteq> getDoc ed \<longrightarrow> ed_options ed1 ''mode'' = modeOption (heap w1 d)) \<and>
           (\<forall>k. k \<noteq> ''mode'' \<longrightarrow> k \<noteq> ''direction'' \<longrightarrow> ed_options ed1 k = ed_options ed k) \<and>
           docs this1 = (docs this)(registry_key (options this) \<mapsto> d) \<and>
           options this1 = options this \<and> CodeMirror this1 = CodeMirror this \<and>
           calls w1 = calls w @ (if d \<noteq> getDoc ed then [SwapDoc d] else [])"
  using assms unfolding updateDocIfRequired_def Let_def new_Doc_def swapDoc_def getDoc_def
  by (cases "doc (options this)"; cases "docs this (registry_key (options this))";
      cases "CodeMirror this"; cases "value_opt (options this)"; cases "editor this";
      simp split: if_splits; auto)

lemma updateDocIfRequired_which:
  assumes "updateDocIfRequired w this = Inr (d, w1, this1)"
  shows "(case doc (options this) of
            Some d0 \<Rightarrow> d = d0 \<and> heap w1 = heap w \<and> next_doc w1 = next_doc w
          | None \<Rightarrow>
             (case docs this (registry_key (options this)) of
                Some d0 \<Rightarrow> d = d0 \<and> heap w1 = heap w \<and> next_doc w1 = next_doc w
              | None \<Rightarrow> d = next_doc w \<and> next_doc w1 = Suc (next_doc w) \<and>
                  (case value_opt (options this) of
                     None \<Rightarrow> False
                   | Some v \<Rightarrow>
                       heap w1 = (heap w)(d :=
                         \<lparr>doc_value = v,
                          modeOption = config_get (config (options this)) ''mode'',
                          doc_direction = JStr ''ltr'',
                          doc_cursor = \<lparr>line = 0, ch = 0\<rparr>, doc_selections = []\<rparr>))))"
  using assms unfolding updateDocIfRequired_def Let_def new_Doc_def swapDoc_def getDoc_def
  by (cases "doc (options this)"; cases "docs this (registry_key (options this))";
      cases "CodeMirror this"; cases "value_opt (options this)"; cases "editor this";
      simp split: if_splits; auto)

lemma updateDocIfRequired_given:
  assumes "updateDocIfRequired w this = Inr (d, w1, this1)"
    and "doc (options this) = Some d0 \<or>
         (doc (options this) = None \<and> docs this (registry_key (options this)) = Some d0)"
  shows "d = d0" "next_doc w1 = next_doc w" "heap w1 = heap w"
  using updateDocIfRequired_which[OF assms(1)] assms(2)
  by (auto split: option.splits)

lemma updateDocIfRequired_created:
  assumes "updateDocIfRequired w this = Inr (d, w1, this1)"
    and "doc (options this) = None" and "docs this (registry_key (options this)) = None"
  shows "d = next_doc w" "next_doc w1 = Suc (next_doc w)"
    "value_opt (options this) = Some (doc_value (heap w1 (next_doc w)))"
    "modeOption (heap w1 (next_doc w)) = config_get (config (options this)) ''mode''"
    "d' \<noteq> next_doc w \<Longrightarrow> heap w1 d' = heap w d'"
  using updateDocIfRequired_which[OF assms(1)] assms(2,3)
  by (auto split: option.splits)

lemma update_Inr:
  assumes u: "updateDocIfRequired w (this\<lparr>options := opts\<rparr>) = Inr (d, w1, this1)"
    and e: "editor this1 = Some ed"
  shows "\<exists>w' ed'. update w this opts = Inr (w', this1\<lparr>editor := Some ed'\<rparr>) \<and>
     ed_doc ed' = d \<and>
     calls w' = calls w1
        @ map (\<lambda>k. SetOption k (config_get (config opts) k)) (configDelta ed (config opts))
        @ (case cursor opts of
             None \<Rightarrow> []
           | Some c \<Rightarrow>
               (if truthy (getOption ed' ''autofocus'') then [Focus] else []) @
               [SetCursor d (case preserve_cursor w1 ed opts of None \<Rightarrow> c | Some p \<Rightarrow> p)
                  (if is_true (autoScroll opts) then None else Some False)])
        @ (case scroll opts of None \<Rightarrow> [] | Some s \<Rightarrow> [ScrollTo (scroll_x s) (scroll_y s)]) \<and>
     (\<forall>d'. d' \<noteq> d \<longrightarrow> heap w' d' = heap w1 d') \<and>
     doc_value (heap w' d) = doc_value (heap w1 d) \<and>
     modeOption (heap w' d) =
       (if ''mode'' \<in> set (configDelta ed (config opts)) then config_get (config opts) ''mode''
        else modeOption (heap w1 d)) \<and>
     next_doc w' = next_doc w1"
proof -
  let ?f = "config_get (config opts)"
  let ?ks = "configDelta ed (config opts)"
  from updateDocIfRequired_InrD[OF u] e have o: "options this1 = opts" and dd: "ed_doc ed = d"
    by auto
  obtain w3 ed3 where f: "fold (\<lambda>key (w', ed'). setOption w' ed' key (?f key)) ?ks (w1, ed) = (w3, ed3)"
    by (cases "fold (\<lambda>key (w', ed'). setOption w' ed' key (?f key)) ?ks (w1, ed)")
  note fs = fold_setOption[OF f, unfolded dd]
  have c3: "calls w3 = calls w1 @ map (\<lambda>k. SetOption k (?f k)) ?ks"
    and n3: "next_doc w3 = next_doc w1"
    and d3: "ed_doc ed3 = d"
    and h3: "\<And>d'. d' \<noteq> d \<Longrightarrow> heap w3 d' = heap w1 d'"
    and v3: "doc_value (heap w3 d) = doc_value (heap w1 d)"
    and m3: "modeOption (heap w3 d) =
               (if ''mode'' \<in> set ?ks then ?f ''mode'' else modeOption (heap w1 d))"
    using fs by simp_all
  define w5 where "w5 = (case cursor opts of None \<Rightarrow> w3
       | Some c \<Rightarrow> setCursor (if truthy (getOption ed3 ''autofocus'') then focus w3 else w3) d
             (case preserve_cursor w1 ed opts of None \<Rightarrow> c | Some p \<Rightarrow> p)
             (if is_true (autoScroll opts) then None else Some False))"
  define w6 where "w6 = (case scroll opts of None \<Rightarrow> w5 | Some s \<Rightarrow> scrollTo w5 (scroll_x s) (scroll_y s))"
  have r: "update w this opts = Inr (w6, this1\<lparr>editor := Some ed3\<rparr>)"
    using u e o f
    by (simp add: update_def Let_def w5_def w6_def split: option.splits)
  have c5: "calls w5 = calls w3 @ (case cursor opts of None \<Rightarrow> []
           | Some c \<Rightarrow> (if truthy (getOption ed3 ''autofocus'') then [Focus] else []) @
               [SetCursor d (case preserve_cursor w1 ed opts of None \<Rightarrow> c | Some p \<Rightarrow> p)
                  (if is_true (autoScroll opts) then None else Some False)])"
    by (simp add: w5_def setCursor_def focus_def split: option.splits)
  have h5: "\<And>d'. d' \<noteq> d \<Longrightarrow> heap w5 d' = heap w1 d'" "next_doc w5 = next_doc w1"
    "doc_value (heap w5 d) = doc_value (heap w1 d)" "modeOption (heap w5 d) = modeOption (heap w3 d)"
    using h3 n3 v3 by (simp_all add: w5_def setCursor_def focus_def split: option.splits)
  have c6: "calls w6 = calls w5 @ (case scroll opts of None \<Rightarrow> [] | Some s \<Rightarrow> [ScrollTo (scroll_x s) (scroll_y s)])"
    by (simp add: w6_def scrollTo_def split: option.splits)
  have h6: "\<And>d'. d' \<noteq> d \<Longrightarrow> heap w6 d' = heap w1 d'" "next_doc w6 = next_doc w1"
    "doc_value (heap w6 d) = doc_value (heap w1 d)" "modeOption (heap w6 d) = modeOption (heap w3 d)"
    using h5 by (simp_all add: w6_def scrollTo_def split: option.splits)
  show ?thesis
    apply (rule exI[of _ w6], rule exI[of _ ed3])
    using r c3 c5 c6 h6 d3 m3 by simp
qed

lemma update_InrD:
  assumes "update w this opts = Inr (w', this')"
  shows "\<exists>d w1 this1 ed. updateDocIfRequired w (this\<lparr>options := opts\<rparr>) = Inr (d, w1, this1)
           \<and> editor this1 = Some ed"
proof (cases "updateDocIfRequired w (this\<lparr>options := opts\<rparr>)")
  case (Inl e)
  with assms show ?thesis by (simp add: update_def)
next
  case (Inr r)
  obtain d w1 this1 where r: "r = (d, w1, this1)" by (cases r)
  from updateDocIfRequired_InrD[OF Inr[unfolded r]] obtain ed where "editor this1 = Some ed" by auto
  with Inr r show ?thesis by auto
qed

lemma new_CodeMirrorInstance_InrD:
  assumes "new_CodeMirrorInstance w CM node opts = Inr (w', this')"
  shows "\<exists>d w1 this1. updateDocIfRequired (snd (new_CodeMirror w CM node (config opts)))
            \<lparr>CodeMirror = Some CM, docs = Map.empty,
             editor = Some (fst (new_CodeMirror w CM node (config opts))), options = opts\<rparr>
              = Inr (d, w1, this1) \<and> this' = this1 \<and>
            heap w' = heap w1 \<and> next_doc w' = next_doc w1 \<and>
            calls w' = calls w1 @ map On event_names"
proof -
  have sub: "\<And>evs w0. heap (fold (\<lambda>ev w'. subscribe w' ev) evs w0) = heap w0 \<and>
      next_doc (fold (\<lambda>ev w'. subscribe w' ev) evs w0) = next_doc w0 \<and>
      calls (fold (\<lambda>ev w'. subscribe w' ev) evs w0) = calls w0 @ map On evs"
  proof -
    fix evs w0 show "heap (fold (\<lambda>ev w'. subscribe w' ev) evs w0) = heap w0 \<and>
      next_doc (fold (\<lambda>ev w'. subscribe w' ev) evs w0) = next_doc w0 \<and>
      calls (fold (\<lambda>ev w'. subscribe w' ev) evs w0) = calls w0 @ map On evs"
      by (induction evs arbitrary: w0) (auto simp: subscribe_def)
  qed
  show ?thesis
    using assms sub
    by (auto simp: new_CodeMirrorInstance_def Let_def split: prod.splits sum.splits)
qed

lemma new_CodeMirrorInstance_editor:
  assumes "new_CodeMirrorInstance w CM node opts = Inr (w', this')"
  shows "\<exists>ed'. editor this' = Some ed'"
proof -
  from new_CodeMirrorInstance_InrD[OF assms] obtain d w1 where
    u: "updateDocIfRequired (snd (new_CodeMirror w CM node (config opts)))
            \<lparr>CodeMirror = Some CM, docs = Map.empty,
             editor = Some (fst (new_CodeMirror w CM node (config opts))), options = opts\<rparr>
              = Inr (d, w1, this')" by blast
  from updateDocIfRequired_InrD[OF u] show ?thesis by blast
qed

lemma update_result:
  assumes "update w this opts = Inr (w', this')"
  shows "\<exists>d w1 ed ed1 ed'.
      updateDocIfRequired w (this\<lparr>options := opts\<rparr>) = Inr (d, w1, this'\<lparr>editor := Some ed1\<rparr>) \<and>
      editor this = Some ed \<and> editor this' = Some ed' \<and> getDoc ed' = d \<and> getDoc ed1 = d \<and>
      (d = getDoc ed \<longrightarrow> ed1 = ed) \<and>
      (d \<noteq> getDoc ed \<longrightarrow> getOption ed1 ''mode'' = modeOption (heap w1 d)) \<and>
      (\<forall>k. k \<noteq> ''mode'' \<longrightarrow> k \<noteq> ''direction'' \<longrightarrow> getOption ed1 k = getOption ed k) \<and>
      docs this' = (docs this)(registry_key opts \<mapsto> d) \<and>
      options this' = opts \<and> CodeMirror this' = CodeMirror this \<and>
      calls w1 = calls w @ (if d \<noteq> getDoc ed then [SwapDoc d] else []) \<and>
      calls w' = calls w1
        @ map (\<lambda>k. SetOption k (config_get (config opts) k)) (configDelta ed1 (config opts))
        @ (case cursor opts of
             None \<Rightarrow> []
           | Some c \<Rightarrow>
               (if truthy (getOption ed' ''autofocus'') then [Focus] else []) @
               [SetCursor d (case preserve_cursor w1 ed1 opts of None \<Rightarrow> c | Some p \<Rightarrow> p)
                  (if is_true (autoScroll opts) then None else Some False)])
        @ (case scroll opts of None \<Rightarrow> [] | Some s \<Rightarrow> [ScrollTo (scroll_x s) (scroll_y s)]) \<and>
      (\<forall>d'. d' \<noteq> d \<longrightarrow> heap w' d' = heap w1 d') \<and>
      doc_value (heap w' d) = doc_value (heap w1 d) \<and>
      modeOption (heap w' d) =
        (if ''mode'' \<in> set (configDelta ed1 (config opts)) then config_get (config opts) ''mode''
         else modeOption (heap w1 d)) \<and>
      next_doc w' = next_doc w1"
proof -
  from update_InrD[OF assms] obtain d w1 this1 ed1 where
    u: "updateDocIfRequired w (this\<lparr>options := opts\<rparr>) = Inr (d, w1, this1)"
    and e: "editor this1 = Some ed1" by blast
  from updateDocIfRequired_InrD[OF u] e obtain ed where
    i: "editor this = Some ed" "ed_doc ed1 = d" "d = getDoc ed \<longrightarrow> ed1 = ed"
       "d \<noteq> getDoc ed \<longrightarrow> ed_options ed1 ''mode'' = modeOption (heap w1 d)"
       "\<forall>k. k \<noteq> ''mode'' \<longrightarrow> k \<noteq> ''direction'' \<longrightarrow> ed_options ed1 k = ed_options ed k"
       "docs this1 = (docs this)(registry_key opts \<mapsto> d)"
       "options this1 = opts" "CodeMirror this1 = CodeMirror this"
       "calls w1 = calls w @ (if d \<noteq> getDoc ed then [SwapDoc d] else [])" by auto
  from update_Inr[OF u e] assms obtain ed' where
    r: "this' = this1\<lparr>editor := Some ed'\<rparr>" "ed_doc ed' = d"
     "calls w' = calls w1
        @ map (\<lambda>k. SetOption k (config_get (config opts) k)) (configDelta ed1 (config opts))
        @ (case cursor opts of
             None \<Rightarrow> []
           | Some c \<Rightarrow>
               (if truthy (getOption ed' ''autofocus'') then [Focus] else []) @
               [SetCursor d (case preserve_cursor w1 ed1 opts of None \<Rightarrow> c | Some p \<Rightarrow> p)
                  (if is_true (autoScroll opts) then None else Some False)])
        @ (case scroll opts of None \<Rightarrow> [] | Some s \<Rightarrow> [ScrollTo (scroll_x s) (scroll_y s)])"
     "\<forall>d'. d' \<noteq> d \<longrightarrow> heap w' d' = heap w1 d'"
     "doc_value (heap w' d) = doc_value (heap w1 d)"
     "modeOption (heap w' d) =
        (if ''mode'' \<in> set (configDelta ed1 (config opts)) then config_get (config opts) ''mode''
         else modeOption (heap w1 d))"
     "next_doc w' = next_doc w1" by auto
  have t: "this'\<lparr>editor := Some ed1\<rparr> = this1"
    using r(1) e by simp
  show ?thesis
    apply (rule exI[of _ d], rule exI[of _ w1], rule exI[of _ ed], rule exI[of _ ed1],
           rule exI[of _ ed'])
    using u i r(2-) t by (simp add: getDoc_def getOption_def r(1))
qed

lemma updateDocIfRequired_succeeds:
  assumes "editor this = Some ed"
    and "doc (options this) \<noteq> None \<or> docs this (registry_key (options this)) \<noteq> None \<or>
         (CodeMirror this \<noteq> None \<and> value_opt (options this) \<noteq> None \<and>
          registry_key (options this) \<notin> set object_prototype_members)"
  shows "\<exists>d w1 this1. updateDocIfRequired w this = Inr (d, w1, this1)"
  using assms unfolding updateDocIfRequired_def Let_def new_Doc_def swapDoc_def getDoc_def
  by (cases "doc (options this)"; cases "docs this (registry_key (options this))";
      cases "CodeMirror this"; cases "value_opt (options this)"; simp)

lemma update_succeeds:
  assumes "editor this = Some ed"
    and "doc opts \<noteq> None \<or> docs this (registry_key opts) \<noteq> None \<or>
         (CodeMirror this \<noteq> None \<and> value_opt opts \<noteq> None \<and>
          registry_key opts \<notin> set object_prototype_members)"
  shows "\<exists>w' this'. update w this opts = Inr (w', this')"
proof -
  from updateDocIfRequired_succeeds[of "this\<lparr>options := opts\<rparr>" ed w] assms
  obtain d w1 this1 where u: "updateDocIfRequired w (this\<lparr>options := opts\<rparr>) = Inr (d, w1, this1)"
    by auto
  from updateDocIfRequired_InrD[OF u] obtain ed1 where "editor this1 = Some ed1" by auto
  from update_Inr[OF u this] show ?thesis by blast
qed

lemma new_CodeMirrorInstance_succeeds:
  assumes "doc opts \<noteq> None \<or>
           (value_opt opts \<noteq> None \<and> registry_key opts \<notin> set object_prototype_members)"
  shows "\<exists>w' this'. new_CodeMirrorInstance w CM node opts = Inr (w', this')"
proof -
  obtain ed0 w0 where nc: "new_CodeMirror w CM node (config opts) = (ed0, w0)"
    by (cases "new_CodeMirror w CM node (config opts)")
  let ?this = "\<lparr>CodeMirror = Some CM, docs = Map.empty, editor = Some ed0, options = opts\<rparr>"
  from updateDocIfRequired_succeeds[of ?this ed0 w0] assms
  obtain d w1 this1 where "updateDocIfRequired w0 ?this = Inr (d, w1, this1)"
    by auto
  with nc show ?thesis
    by (simp add: new_CodeMirrorInstance_def Let_def)
qed

lemma updateDocIfRequired_inherited_name_raises:
  assumes "doc (options this) = None" and "docs this (registry_key (options this)) = None"
    and "registry_key (options this) \<in> set object_prototype_members"
  shows "updateDocIfRequired w this = Inl TypeError"
  using assms by (simp add: updateDocIfRequired_def Let_def)

lemma filter_SetValue_SetOption:
  "filter is_SetValue (map (\<lambda>k. SetOption k (f k)) ks) = []"
  by (induction ks) auto

lemma filter_SetCursor_SetOption:
  "filter is_SetCursor (map (\<lambda>k. SetOption k (f k)) ks) = []"
  by (induction ks) auto

lemma filter_SetOption_SetOption:
  "filter is_SetOption (map (\<lambda>k. SetOption k (f k)) ks) = map (\<lambda>k. SetOption k (f k)) ks"
  by (induction ks) auto

lemma update_never_calls_setValue:
  assumes "update w this opts = Inr (w', this')"
  shows "filter is_SetValue (new_calls w w') = []"
proof -
  from update_result[OF assms] obtain d w1 ed ed1 ed' where
    "calls w1 = calls w @ (if d \<noteq> getDoc ed then [SwapDoc d] else [])"
    "calls w' = calls w1
        @ map (\<lambda>k. SetOption k (config_get (config opts) k)) (configDelta ed1 (config opts))
        @ (case cursor opts of
             None \<Rightarrow> []
           | Some c \<Rightarrow>
               (if truthy (getOption ed' ''autofocus'') then [Focus] else []) @
               [SetCursor d (case preserve_cursor w1 ed1 opts of None \<Rightarrow> c | Some p \<Rightarrow> p)
                  (if is_true (autoScroll opts) then None else Some False)])
        @ (case scroll opts of None \<Rightarrow> [] | Some s \<Rightarrow> [ScrollTo (scroll_x s) (scroll_y s)])"
    by blast
  then show ?thesis
    by (cases "cursor opts"; cases "scroll opts")
       (simp_all add: new_calls_def filter_SetValue_SetOption)
qed

lemma update_setOption_calls:
  assumes "update w this opts = Inr (w', this')"
    and "updateDocIfRequired w (this\<lparr>options := opts\<rparr>) = Inr (d, w1, this1)"
    and "editor this1 = Some ed1"
  shows "filter is_SetOption (new_calls w w') =
           map (\<lambda>k. SetOption k (config_get (config opts) k)) (configDelta ed1 (config opts))"
proof -
  from updateDocIfRequired_InrD[OF assms(2)] obtain ed where
    c1: "calls w1 = calls w @ (if d \<noteq> getDoc ed then [SwapDoc d] else [])" by auto
  from update_Inr[OF assms(2,3)] assms(1) obtain ed' where
    c: "calls w' = calls w1
        @ map (\<lambda>k. SetOption k (config_get (config opts) k)) (configDelta ed1 (config opts))
        @ (case cursor opts of
             None \<Rightarrow> []
           | Some c \<Rightarrow>
               (if truthy (getOption ed' ''autofocus'') then [Focus] else []) @
               [SetCursor d (case preserve_cursor w1 ed1 opts of None \<Rightarrow> c | Some p \<Rightarrow> p)
                  (if is_true (autoScroll opts) then None else Some False)])
        @ (case scroll opts of None \<Rightarrow> [] | Some s \<Rightarrow> [ScrollTo (scroll_x s) (scroll_y s)])"
    by auto
  show ?thesis
    unfolding new_calls_def c c1
    by (cases "cursor opts"; cases "scroll opts")
       (simp_all add: filter_SetOption_SetOption)
qed

section \<open>Evaluation of the example states\<close>

lemmas eval_defs = new_CodeMirrorInstance_def new_CodeMirror_def updateDocIfRequired_def
  update_def new_Doc_def swapDoc_def getDoc_def getValue_def getCursor_def getOption_def
  setValue_def setOption_def setSelections_def setCursor_def focus_def scrollTo_def
  subscribe_def event_names_def config_get_def config_keys_def configDelta_def
  registry_key_def preserve_cursor_def blank_doc_def world0_def CM0_def plain_options_def
  new_calls_def Let_def world1_def editor1_def instance1_def as_direction_def
  object_prototype_members_def

lemma Inr_caseD:
  "(case r of Inl e \<Rightarrow> False | Inr (w, t) \<Rightarrow> P w t) \<Longrightarrow> \<exists>w t. r = Inr (w, t) \<and> P w t"
  by (auto split: sum.splits)

section \<open>Change notifications: the two filters\<close>

text \<open>
  C4. While the \<open>readOnly\<close> field of the current configuration is \<open>true\<close>, a change
  notification never invokes the user's \<open>onChange\<close> callback, whatever the number,
  content and origin of the reported changes.
\<close>

theorem readOnly_suppresses_onChange:
  "config_get (config (options this)) ''readOnly'' = JBool True
     \<Longrightarrow> handleChanges w this ed changes = []"
  by (simp add: handleChanges_def)

theorem readOnly_suppresses_onChange_witness:
  "config_get (config (options (instance1
      ((plain_options ''a'' ''x.js'' [(''readOnly'', JBool True)])\<lparr>onChange := Some 7\<rparr>))))
      ''readOnly'' = JBool True \<and>
   onChange (options (instance1
      ((plain_options ''a'' ''x.js'' [(''readOnly'', JBool True)])\<lparr>onChange := Some 7\<rparr>)))
      = Some 7 \<and>
   handleChanges world1
     (instance1 ((plain_options ''a'' ''x.js'' [(''readOnly'', JBool True)])\<lparr>onChange := Some 7\<rparr>))
     editor1 [typed_change, typed_change] = []"
  using readOnly_suppresses_onChange[of
     "instance1 ((plain_options ''a'' ''x.js'' [(''readOnly'', JBool True)])\<lparr>onChange := Some 7\<rparr>)"
     world1 editor1 "[typed_change, typed_change]"]
  by (simp add: instance1_def plain_options_def config_get_def)

text \<open>
  C5. A notification whose change list is exactly one change of origin \<open>setValue\<close>
  returns without invoking \<open>onChange\<close>. A notification that holds another change beside
  it is not stopped by this filter: with a configuration that is not read-only and an
  \<open>onChange\<close> callback, the callback is invoked once, with the editor's value, the
  document name, the whole change list and the editor's document.
\<close>

theorem sole_setValue_change_suppressed:
  "(origin c = Some ''setValue'' \<longrightarrow> handleChanges w this ed [c] = []) \<and>
   (\<not> truthy (config_get (config (options this)) ''readOnly'') \<longrightarrow>
    onChange (options this) = Some f \<longrightarrow>
      handleChanges w this ed (c # c' # cs) =
        [OnChange f (getValue w ed) (docName (options this)) (c # c' # cs) (getDoc ed)])"
  by (simp add: handleChanges_def)

theorem sole_setValue_change_suppressed_witness:
  "origin setValue_change = Some ''setValue'' \<and>
   handleChanges world1 (instance1 ((plain_options ''a'' ''x.js'' [])\<lparr>onChange := Some 7\<rparr>))
     editor1 [setValue_change] = [] \<and>
   handleChanges world1 (instance1 ((plain_options ''a'' ''x.js'' [])\<lparr>onChange := Some 7\<rparr>))
     editor1 [setValue_change, typed_change] =
       [OnChange 7 ''a'' (Some ''x.js'') [setValue_change, typed_change] 0]"
  using sole_setValue_change_suppressed[of setValue_change world1
     "instance1 ((plain_options ''a'' ''x.js'' [])\<lparr>onChange := Some 7\<rparr>)" editor1 7
     typed_change "[]"]
  by (simp add: instance1_def plain_options_def config_get_def setValue_change_def
      getValue_def getDoc_def world1_def editor1_def)

section \<open>The value of the editor\<close>

text \<open>
  C1. The source binds \<open>oldOptions\<close> to the incoming options, so the test
  \<open>oldOptions.value !== options.value\<close> never holds and \<open>update\<close> never replaces the
  editor's text. Mounted with the value \<open>a\<close> and updated with the value \<open>b\<close> (same
  document name), the instance makes no call at all and the editor still shows \<open>a\<close>.
\<close>

theorem update_value_a_to_b_calls_no_setValue:
  "(case new_CodeMirrorInstance world0 CM0 0 (plain_options ''a'' ''x.js'' [(''mode'', JStr ''jsx'')]) of
      Inl e \<Rightarrow> False
    | Inr (w1, this1) \<Rightarrow>
        value_opt (options this1) = Some ''a'' \<and>
        map_option (getValue w1) (editor this1) = Some ''a'' \<and>
        (case update w1 this1 (plain_options ''b'' ''x.js'' [(''mode'', JStr ''jsx'')]) of
           Inl e \<Rightarrow> False
         | Inr (w2, this2) \<Rightarrow>
             new_calls w1 w2 = [] \<and>
             map_option (getValue w2) (editor this2) = Some ''a''))"
  by (simp add: eval_defs)

section \<open>Cursor preservation\<close>

text \<open>
  C3. In an update whose document step has succeeded, the cursor of the displayed
  document is captured exactly when \<open>autoCursor\<close> is \<open>false\<close> (not when it is \<open>true\<close> or
  \<open>undefined\<close>). The update makes one \<open>setCursor\<close> call when a cursor is requested and
  none otherwise; its position is the captured cursor when there is one, else the
  requested cursor, and its last argument is \<open>{ scroll: false }\<close> unless \<open>autoScroll\<close> is
  set.
\<close>

theorem cursor_capture_and_setCursor:
  assumes "updateDocIfRequired w (this\<lparr>options := opts\<rparr>) = Inr (d, w1, this1)"
    and "editor this1 = Some ed"
  shows "preserve_cursor w1 ed opts =
           (if autoCursor opts = Some False then Some (getCursor w1 d) else None) \<and>
         (\<exists>w' this'. update w this opts = Inr (w', this') \<and>
            filter is_SetCursor (new_calls w w') =
              (case cursor opts of
                 None \<Rightarrow> []
               | Some c \<Rightarrow>
                   [SetCursor d (if autoCursor opts = Some False then getCursor w1 d else c)
                      (if autoScroll opts = Some True then None else Some False)]))"
proof -
  from updateDocIfRequired_InrD[OF assms(1)] assms(2) obtain ed0 where
    ed: "ed_doc ed = d"
    and c1: "calls w1 = calls w @ (if d \<noteq> getDoc ed0 then [SwapDoc d] else [])" by auto
  have p: "preserve_cursor w1 ed opts =
           (if autoCursor opts = Some False then Some (getCursor w1 d) else None)"
    by (cases "autoCursor opts") (auto simp: preserve_cursor_def getDoc_def ed)
  have s: "is_true (autoScroll opts) = (autoScroll opts = Some True)"
    by (cases "autoScroll opts") auto
  from update_Inr[OF assms] obtain w' ed' where
    r: "update w this opts = Inr (w', this1\<lparr>editor := Some ed'\<rparr>)"
    and c: "calls w' = calls w1
        @ map (\<lambda>k. SetOption k (config_get (config opts) k)) (configDelta ed (config opts))
        @ (case cursor opts of
             None \<Rightarrow> []
           | Some c \<Rightarrow>
               (if truthy (getOption ed' ''autofocus'') then [Focus] else []) @
               [SetCursor d (case preserve_cursor w1 ed opts of None \<Rightarrow> c | Some p \<Rightarrow> p)
                  (if is_true (autoScroll opts) then None else Some False)])
        @ (case scroll opts of None \<Rightarrow> [] | Some s \<Rightarrow> [ScrollTo (scroll_x s) (scroll_y s)])"
    by blast
  have "filter is_SetCursor (new_calls w w') =
              (case cursor opts of
                 None \<Rightarrow> []
               | Some c \<Rightarrow>
                   [SetCursor d (if autoCursor opts = Some False then getCursor w1 d else c)
                      (if autoScroll opts = Some True then None else Some False)])"
    unfolding new_calls_def c c1 p s
    by (cases "cursor opts"; cases "scroll opts")
       (simp_all add: filter_SetCursor_SetOption)
  with r p show ?thesis by blast
qed

theorem cursor_capture_and_setCursor_witness:
  "\<exists>d w1 this1 ed.
     updateDocIfRequired world1
       ((instance1 (plain_options ''a'' ''x.js'' []))
          \<lparr>options := (plain_options ''a'' ''x.js'' [])
              \<lparr>autoCursor := Some False, cursor := Some \<lparr>line = 3, ch = 1\<rparr>\<rparr>\<rparr>)
       = Inr (d, w1, this1) \<and>
     editor this1 = Some ed \<and>
     preserve_cursor w1 ed ((plain_options ''a'' ''x.js'' [])
              \<lparr>autoCursor := Some False, cursor := Some \<lparr>line = 3, ch = 1\<rparr>\<rparr>)
       = Some \<lparr>line = 1, ch = 2\<rparr> \<and>
     (\<exists>w' this'.
        update world1 (instance1 (plain_options ''a'' ''x.js'' []))
          ((plain_options ''a'' ''x.js'' [])
              \<lparr>autoCursor := Some False, cursor := Some \<lparr>line = 3, ch = 1\<rparr>\<rparr>)
          = Inr (w', this') \<and>
        filter is_SetCursor (new_calls world1 w') = [SetCursor 0 \<lparr>line = 1, ch = 2\<rparr> (Some False)])"
proof -
  let ?o = "(plain_options ''a'' ''x.js'' [])
              \<lparr>autoCursor := Some False, cursor := Some \<lparr>line = 3, ch = 1\<rparr>\<rparr>"
  let ?this = "instance1 (plain_options ''a'' ''x.js'' [])"
  obtain d w1 this1 where u: "updateDocIfRequired world1 (?this\<lparr>options := ?o\<rparr>) = Inr (d, w1, this1)"
    using updateDocIfRequired_succeeds[of "?this\<lparr>options := ?o\<rparr>" editor1 world1]
    by (auto simp: instance1_def plain_options_def registry_key_def)
  from updateDocIfRequired_InrD[OF u] obtain ed where e: "editor this1 = Some ed" by auto
  from updateDocIfRequired_which[OF u] have w: "d = 0" "heap w1 = heap world1"
    by (simp_all add: instance1_def plain_options_def registry_key_def)
  have g: "getCursor w1 d = \<lparr>line = 1, ch = 2\<rparr>"
    by (simp add: w getCursor_def world1_def blank_doc_def)
  from cursor_capture_and_setCursor[OF u e] u e g w(1) show ?thesis
    by (simp add: plain_options_def)
qed

section \<open>Configuration keys\<close>

text \<open>
  C6, as the code has it. An update compares each key of the current configuration with
  the editor's live option, read after its document step, and calls \<open>setOption\<close> for
  exactly the keys whose values differ, once each, in key order, with the key's current
  value; a key whose value equals the live option gets no call. The document step
  leaves the live option of every key but \<open>mode\<close> and \<open>direction\<close> as the editor held it
  before the update; when it swaps documents, the live \<open>mode\<close> is the mode of the
  document swapped in.
\<close>

theorem setOption_calls_are_the_keys_differing_from_live_options:
  assumes "update w this cur = Inr (w', this')"
  shows "\<exists>d w1 this1 ed ed1.
           editor this = Some ed \<and>
           updateDocIfRequired w (this\<lparr>options := cur\<rparr>) = Inr (d, w1, this1) \<and>
           editor this1 = Some ed1 \<and>
           filter is_SetOption (new_calls w w') =
             map (\<lambda>key. SetOption key (config_get (config cur) key))
               (filter (\<lambda>key. getOption ed1 key \<noteq> config_get (config cur) key)
                  (config_keys (config cur))) \<and>
           (\<forall>key v. SetOption key v \<in> set (new_calls w w') \<longleftrightarrow>
              key \<in> set (config_keys (config cur)) \<and> v = config_get (config cur) key \<and>
              getOption ed1 key \<noteq> v) \<and>
           (\<forall>key. key \<noteq> ''mode'' \<longrightarrow> key \<noteq> ''direction'' \<longrightarrow>
              getOption ed1 key = getOption ed key) \<and>
           (d = getDoc ed \<longrightarrow> ed1 = ed) \<and>
           (d \<noteq> getDoc ed \<longrightarrow> getOption ed1 ''mode'' = modeOption (heap w1 d))"
proof -
  from update_result[OF assms] obtain d w1 ed ed1 ed' where
    u: "updateDocIfRequired w (this\<lparr>options := cur\<rparr>) = Inr (d, w1, this'\<lparr>editor := Some ed1\<rparr>)"
    and e: "editor this = Some ed"
    and f: "d = getDoc ed \<longrightarrow> ed1 = ed"
       "d \<noteq> getDoc ed \<longrightarrow> getOption ed1 ''mode'' = modeOption (heap w1 d)"
       "\<forall>k. k \<noteq> ''mode'' \<longrightarrow> k \<noteq> ''direction'' \<longrightarrow> getOption ed1 k = getOption ed k"
    by blast
  have e1: "editor (this'\<lparr>editor := Some ed1\<rparr>) = Some ed1" by simp
  note c = update_setOption_calls[OF assms u e1]
  have m: "\<forall>key v. SetOption key v \<in> set (new_calls w w') \<longleftrightarrow>
              key \<in> set (config_keys (config cur)) \<and> v = config_get (config cur) key \<and>
              getOption ed1 key \<noteq> v"
  proof (intro allI)
    fix key v
    have "SetOption key v \<in> set (new_calls w w') \<longleftrightarrow>
            SetOption key v \<in> set (filter is_SetOption (new_calls w w'))" by simp
    also have "\<dots> \<longleftrightarrow> key \<in> set (config_keys (config cur)) \<and> v = config_get (config cur) key \<and>
              getOption ed1 key \<noteq> v"
      unfolding c by (auto simp: configDelta_def)
    finally show "SetOption key v \<in> set (new_calls w w') \<longleftrightarrow>
              key \<in> set (config_keys (config cur)) \<and> v = config_get (config cur) key \<and>
              getOption ed1 key \<noteq> v" .
  qed
  show ?thesis
    apply (rule exI[of _ d], rule exI[of _ w1], rule exI[of _ "this'\<lparr>editor := Some ed1\<rparr>"],
           rule exI[of _ ed], rule exI[of _ ed1])
    using u e f m c[unfolded configDelta_def] by simp
qed


theorem setOption_calls_are_the_keys_differing_from_live_options_witness:
  "\<exists>w1 this1 w2 this2.
     new_CodeMirrorInstance world0 CM0 0
       (plain_options ''a'' ''x.js'' [(''tabSize'', JNum 2), (''mode'', JStr ''jsx'')]) = Inr (w1, this1) \<and>
     update w1 this1
       (plain_options ''a'' ''x.js'' [(''tabSize'', JNum 4), (''mode'', JStr ''jsx'')]) = Inr (w2, this2) \<and>
     map_option (\<lambda>ed. (getOption ed ''tabSize'', getOption ed ''mode'')) (editor this1)
       = Some (JNum 2, JStr ''jsx'') \<and>
     filter is_SetOption (new_calls w1 w2) = [SetOption ''tabSize'' (JNum 4)] \<and>
     (\<forall>v. SetOption ''mode'' v \<notin> set (new_calls w1 w2)) \<and>
     SetOption ''tabSize'' (JNum 4) \<in> set (new_calls w1 w2)"
proof -
  let ?prev = "plain_options ''a'' ''x.js'' [(''tabSize'', JNum 2), (''mode'', JStr ''jsx'')]"
  let ?cur = "plain_options ''a'' ''x.js'' [(''tabSize'', JNum 4), (''mode'', JStr ''jsx'')]"
  have ev: "(case new_CodeMirrorInstance world0 CM0 0 ?prev of
               Inl e \<Rightarrow> False
             | Inr (w1, this1) \<Rightarrow>
                 map_option (\<lambda>ed. (getOption ed ''tabSize'', getOption ed ''mode'')) (editor this1)
                   = Some (JNum 2, JStr ''jsx'') \<and>
                 map_option getDoc (editor this1) = Some 1 \<and>
                 docs this1 ''x.js'' = Some 1 \<and>
                 (case update w1 this1 ?cur of Inl e \<Rightarrow> False | Inr (w2, this2) \<Rightarrow> True))"
    by (simp add: eval_defs)
  from Inr_caseD[OF ev] obtain w1 this1 where
    r1: "new_CodeMirrorInstance world0 CM0 0 ?prev = Inr (w1, this1)"
    and o1: "map_option (\<lambda>ed. (getOption ed ''tabSize'', getOption ed ''mode'')) (editor this1)
                   = Some (JNum 2, JStr ''jsx'')"
    and g1: "map_option getDoc (editor this1) = Some 1" "docs this1 ''x.js'' = Some 1"
    and ev2: "(case update w1 this1 ?cur of Inl e \<Rightarrow> False | Inr (w2, this2) \<Rightarrow> True)"
    by blast
  from Inr_caseD[OF ev2] obtain w2 this2 where r2: "update w1 this1 ?cur = Inr (w2, this2)"
    by blast
  from setOption_calls_are_the_keys_differing_from_live_options[OF r2]
  obtain d v1 t1 ed ed1 where
    a: "editor this1 = Some ed \<and>
        updateDocIfRequired w1 (this1\<lparr>options := ?cur\<rparr>) = Inr (d, v1, t1) \<and>
        editor t1 = Some ed1 \<and>
        filter is_SetOption (new_calls w1 w2) =
             map (\<lambda>key. SetOption key (config_get (config ?cur) key))
               (filter (\<lambda>key. getOption ed1 key \<noteq> config_get (config ?cur) key)
                  (config_keys (config ?cur))) \<and>
        (\<forall>key v. SetOption key v \<in> set (new_calls w1 w2) \<longleftrightarrow>
              key \<in> set (config_keys (config ?cur)) \<and> v = config_get (config ?cur) key \<and>
              getOption ed1 key \<noteq> v) \<and>
        (\<forall>key. key \<noteq> ''mode'' \<longrightarrow> key \<noteq> ''direction'' \<longrightarrow>
              getOption ed1 key = getOption ed key) \<and>
        (d = getDoc ed \<longrightarrow> ed1 = ed) \<and>
        (d \<noteq> getDoc ed \<longrightarrow> getOption ed1 ''mode'' = modeOption (heap v1 d))"
    by (elim exE) (erule that)
  note a1 = a[THEN conjunct1] and a2 = a[THEN conjunct2, THEN conjunct1]
    and a4 = a[THEN conjunct2, THEN conjunct2, THEN conjunct2, THEN conjunct1]
    and a5 = a[THEN conjunct2, THEN conjunct2, THEN conjunct2, THEN conjunct2, THEN conjunct1]
    and a7 = a[THEN conjunct2, THEN conjunct2, THEN conjunct2, THEN conjunct2, THEN conjunct2,
               THEN conjunct2, THEN conjunct1]
  from updateDocIfRequired_which[OF a2] g1(2) have "d = 1"
    by (simp add: plain_options_def registry_key_def)
  with a1 a7 g1(1) have "ed1 = ed" by simp
  with a1 o1 have o: "getOption ed1 ''tabSize'' = JNum 2" "getOption ed1 ''mode'' = JStr ''jsx''"
    by simp_all
  have k: "config_keys (config ?cur) = [''tabSize'', ''mode'']"
    "config_get (config ?cur) ''tabSize'' = JNum 4" "config_get (config ?cur) ''mode'' = JStr ''jsx''"
    by (simp_all add: plain_options_def config_keys_def config_get_def)
  from a4 have 1: "filter is_SetOption (new_calls w1 w2) = [SetOption ''tabSize'' (JNum 4)]"
    unfolding k by (simp add: o k)
  from a5[rule_format, of "''mode''"] have 2: "\<forall>v. SetOption ''mode'' v \<notin> set (new_calls w1 w2)"
    unfolding k by (simp add: o k)
  from a5[rule_format, of "''tabSize''" "JNum 4"]
  have 3: "SetOption ''tabSize'' (JNum 4) \<in> set (new_calls w1 w2)"
    unfolding k by (simp add: o k)
  from r1 r2 o1 1 2 3 show ?thesis by blast
qed

text \<open>
  C6 as stated fails for the key \<open>mode\<close>. An instance is constructed for \<open>x.js\<close> with the
  mode \<open>jsx\<close>, which creates document 1 with that mode. The update to \<open>y.css\<close> with the
  mode \<open>css\<close> creates and displays document 2. The update back to \<open>x.js\<close>, still with the
  mode \<open>css\<close>, swaps document 1 in, which makes the live mode \<open>jsx\<close>, and so calls
  \<open>setOption\<close> for the key \<open>mode\<close>, whose value is \<open>css\<close> in the previous configuration
  and in the current one.
\<close>

theorem unchanged_mode_is_set_again_after_swap:
  "(case new_CodeMirrorInstance world0 CM0 0 (plain_options ''a'' ''x.js'' [(''mode'', JStr ''jsx'')]) of
      Inl e \<Rightarrow> False
    | Inr (w1, this1) \<Rightarrow>
        (case update w1 this1 (plain_options ''b'' ''y.css'' [(''mode'', JStr ''css'')]) of
           Inl e \<Rightarrow> False
         | Inr (w2, this2) \<Rightarrow>
             (case update w2 this2 (plain_options ''a'' ''x.js'' [(''mode'', JStr ''css'')]) of
                Inl e \<Rightarrow> False
              | Inr (w3, this3) \<Rightarrow>
                  new_calls w1 w2 = [SwapDoc 2] \<and>
                  config_get (config (options this2)) ''mode'' = JStr ''css'' \<and>
                  config_get (config (options this3)) ''mode'' = JStr ''css'' \<and>
                  new_calls w2 w3 = [SwapDoc 1, SetOption ''mode'' (JStr ''css'')])))"
  by (simp add: eval_defs)

text \<open>
  A key other than \<open>mode\<close> can be set again as well. The editor is constructed with
  the tab size 2 (a number) and updated twice with the tab size \<open>2\<close> (a string). The
  first update calls \<open>setOption\<close>, which stores nothing because the two values are
  \<open>==\<close>; the live option is still the number, and the second update, whose
  configuration is that of the first, calls \<open>setOption\<close> again.
\<close>

lemma loosely_equal_value_is_set_again:
  "(case new_CodeMirrorInstance world_loose CM0 0 (plain_options ''a'' ''x.js'' [(''tabSize'', JNum 2)]) of
      Inl e \<Rightarrow> False
    | Inr (w1, this1) \<Rightarrow>
        (case update w1 this1 (plain_options ''a'' ''x.js'' [(''tabSize'', JStr ''2'')]) of
           Inl e \<Rightarrow> False
         | Inr (w2, this2) \<Rightarrow>
             new_calls w1 w2 = [SetOption ''tabSize'' (JStr ''2'')] \<and>
             map_option (\<lambda>ed. getOption ed ''tabSize'') (editor this2) = Some (JNum 2) \<and>
             (case update w2 this2 (plain_options ''a'' ''x.js'' [(''tabSize'', JStr ''2'')]) of
                Inl e \<Rightarrow> False
              | Inr (w3, this3) \<Rightarrow>
                  new_calls w2 w3 = [SetOption ''tabSize'' (JStr ''2'')])))"
  by (simp add: eval_defs world_loose_def)

section \<open>The document registry\<close>

text \<open>
  C7, as the code has it. After the constructor and after every update the editor
  displays the document registered under the current identifier (\<open>docName\<close>, or the empty
  string). That document is the \<open>doc\<close> object of the options when they pass one (it is
  registered under the identifier and no document is created), else the document already
  registered, and only when there is neither a new document made from the current
  value and mode.
\<close>

theorem displayed_doc_is_registered_doc:
  "(new_CodeMirrorInstance w CM node opts = Inr (w', this') \<longrightarrow>
      (\<exists>ed'. editor this' = Some ed' \<and>
         docs this' (registry_key opts) = Some (getDoc ed') \<and>
         (case doc opts of
            Some d0 \<Rightarrow> getDoc ed' = d0 \<and> next_doc w' = Suc (next_doc w)
          | None \<Rightarrow>
              getDoc ed' = Suc (next_doc w) \<and> next_doc w' = Suc (Suc (next_doc w)) \<and>
              value_opt opts = Some (doc_value (heap w' (getDoc ed'))) \<and>
              modeOption (heap w' (getDoc ed')) = config_get (config opts) ''mode''))) \<and>
   (update w this opts = Inr (w', this') \<longrightarrow>
      (\<exists>ed'. editor this' = Some ed' \<and>
         docs this' (registry_key opts) = Some (getDoc ed') \<and>
         (case doc opts of
            Some d0 \<Rightarrow> getDoc ed' = d0 \<and> next_doc w' = next_doc w
          | None \<Rightarrow>
              (case docs this (registry_key opts) of
                 Some d0 \<Rightarrow> getDoc ed' = d0 \<and> next_doc w' = next_doc w
               | None \<Rightarrow>
                   getDoc ed' = next_doc w \<and> next_doc w' = Suc (next_doc w) \<and>
                   value_opt opts = Some (doc_value (heap w' (getDoc ed'))) \<and>
                   modeOption (heap w' (getDoc ed')) = config_get (config opts) ''mode''))))"
proof (intro conjI impI)
  assume c: "new_CodeMirrorInstance w CM node opts = Inr (w', this')"
  let ?w0 = "snd (new_CodeMirror w CM node (config opts))"
  let ?inst = "\<lparr>CodeMirror = Some CM, docs = Map.empty,
             editor = Some (fst (new_CodeMirror w CM node (config opts))), options = opts\<rparr>"
  from new_CodeMirrorInstance_InrD[OF c] obtain d w1 where
    u: "updateDocIfRequired ?w0 ?inst = Inr (d, w1, this')"
    and h: "heap w' = heap w1" "next_doc w' = next_doc w1" by blast
  have n0: "next_doc ?w0 = Suc (next_doc w)"
    by (simp add: new_CodeMirror_def Let_def)
  from updateDocIfRequired_InrD[OF u] obtain ed0 ed where
    "editor this' = Some ed \<and> ed_doc ed = d \<and>
     docs this' = (docs ?inst)(registry_key (options ?inst) \<mapsto> d)"
    by (elim exE conjE) (rule that, simp)
  then have e: "editor this' = Some ed" "getDoc ed = d"
    and r: "docs this' (registry_key opts) = Some d" by (simp_all add: getDoc_def)
  have "(case doc opts of
            Some d0 \<Rightarrow> d = d0 \<and> next_doc w' = Suc (next_doc w)
          | None \<Rightarrow>
              d = Suc (next_doc w) \<and> next_doc w' = Suc (Suc (next_doc w)) \<and>
              value_opt opts = Some (doc_value (heap w' d)) \<and>
              modeOption (heap w' d) = config_get (config opts) ''mode'')"
  proof (cases "doc opts")
    case None
    from updateDocIfRequired_created(1-4)[OF u] None have
      "d = next_doc ?w0" "next_doc w1 = Suc (next_doc ?w0)"
      "value_opt opts = Some (doc_value (heap w1 (next_doc ?w0)))"
      "modeOption (heap w1 (next_doc ?w0)) = config_get (config opts) ''mode''" by simp_all
    with None n0 h show ?thesis by simp
  next
    case (Some d0)
    from updateDocIfRequired_given(1,2)[OF u, of d0] Some
    have "d = d0" "next_doc w1 = next_doc ?w0" by simp_all
    with Some n0 h show ?thesis by simp
  qed
  with e r show "\<exists>ed'. editor this' = Some ed' \<and>
         docs this' (registry_key opts) = Some (getDoc ed') \<and>
         (case doc opts of
            Some d0 \<Rightarrow> getDoc ed' = d0 \<and> next_doc w' = Suc (next_doc w)
          | None \<Rightarrow>
              getDoc ed' = Suc (next_doc w) \<and> next_doc w' = Suc (Suc (next_doc w)) \<and>
              value_opt opts = Some (doc_value (heap w' (getDoc ed'))) \<and>
              modeOption (heap w' (getDoc ed')) = config_get (config opts) ''mode'')"
    by (intro exI[of _ ed]) (auto split: option.splits)
next
  assume c: "update w this opts = Inr (w', this')"
  from update_result[OF c] obtain d w1 ed1 ed' where
    u: "updateDocIfRequired w (this\<lparr>options := opts\<rparr>) =
          Inr (d, w1, this'\<lparr>editor := Some ed1\<rparr>)"
    and e: "editor this' = Some ed'" "getDoc ed' = d"
    and r: "docs this' = (docs this)(registry_key opts \<mapsto> d)"
    and h: "doc_value (heap w' d) = doc_value (heap w1 d)"
           "modeOption (heap w' d) =
              (if ''mode'' \<in> set (configDelta ed1 (config opts))
               then config_get (config opts) ''mode'' else modeOption (heap w1 d))"
           "next_doc w' = next_doc w1"
    by (elim exE conjE) (rule that; assumption)
  have "(case doc opts of
            Some d0 \<Rightarrow> d = d0 \<and> next_doc w' = next_doc w
          | None \<Rightarrow>
              (case docs this (registry_key opts) of
                 Some d0 \<Rightarrow> d = d0 \<and> next_doc w' = next_doc w
               | None \<Rightarrow>
                   d = next_doc w \<and> next_doc w' = Suc (next_doc w) \<and>
                   value_opt opts = Some (doc_value (heap w' d)) \<and>
                   modeOption (heap w' d) = config_get (config opts) ''mode''))"
  proof (cases "doc opts")
    case (Some d0)
    from updateDocIfRequired_given(1,2)[OF u, of d0] Some
    have "d = d0" "next_doc w1 = next_doc w" by simp_all
    with Some h(3) show ?thesis by simp
  next
    case None
    show ?thesis
    proof (cases "docs this (registry_key opts)")
      case (Some d0)
      from updateDocIfRequired_given(1,2)[OF u, of d0] None Some
      have "d = d0" "next_doc w1 = next_doc w" by simp_all
      with None Some h(3) show ?thesis by simp
    next
      case n: None
      from updateDocIfRequired_created(1-4)[OF u] None n have
        f: "d = next_doc w" "next_doc w1 = Suc (next_doc w)"
           "value_opt opts = Some (doc_value (heap w1 d))"
           "modeOption (heap w1 d) = config_get (config opts) ''mode''" by simp_all
      from h(2) f(4) have "modeOption (heap w' d) = config_get (config opts) ''mode''"
        by (simp split: if_splits)
      with None n f h(1,3) show ?thesis by simp
    qed
  qed
  with e r show "\<exists>ed'. editor this' = Some ed' \<and>
         docs this' (registry_key opts) = Some (getDoc ed') \<and>
         (case doc opts of
            Some d0 \<Rightarrow> getDoc ed' = d0 \<and> next_doc w' = next_doc w
          | None \<Rightarrow>
              (case docs this (registry_key opts) of
                 Some d0 \<Rightarrow> getDoc ed' = d0 \<and> next_doc w' = next_doc w
               | None \<Rightarrow>
                   getDoc ed' = next_doc w \<and> next_doc w' = Suc (next_doc w) \<and>
                   value_opt opts = Some (doc_value (heap w' (getDoc ed'))) \<and>
                   modeOption (heap w' (getDoc ed')) = config_get (config opts) ''mode''))"
    by (intro exI[of _ ed']) (auto split: option.splits)
qed

theorem displayed_doc_is_registered_doc_witness:
  "\<exists>w1 this1 ed1 w2 this2 ed2.
     new_CodeMirrorInstance world0 CM0 0 (plain_options ''a'' ''x.js'' [(''mode'', JStr ''jsx'')])
       = Inr (w1, this1) \<and>
     editor this1 = Some ed1 \<and> docs this1 ''x.js'' = Some (getDoc ed1) \<and> getDoc ed1 = 1 \<and>
     doc_value (heap w1 1) = ''a'' \<and> modeOption (heap w1 1) = JStr ''jsx'' \<and>
     update w1 this1 (plain_options ''b'' ''y.css'' [(''mode'', JStr ''css'')]) = Inr (w2, this2) \<and>
     editor this2 = Some ed2 \<and> docs this2 ''y.css'' = Some (getDoc ed2) \<and> getDoc ed2 = 2 \<and>
     doc_value (heap w2 2) = ''b'' \<and> modeOption (heap w2 2) = JStr ''css''"
proof -
  let ?o1 = "plain_options ''a'' ''x.js'' [(''mode'', JStr ''jsx'')]"
  let ?o2 = "plain_options ''b'' ''y.css'' [(''mode'', JStr ''css'')]"
  have ev: "(case new_CodeMirrorInstance world0 CM0 0 ?o1 of
               Inl e \<Rightarrow> False
             | Inr (w1, this1) \<Rightarrow>
                 docs this1 ''y.css'' = None \<and> next_doc w1 = 2 \<and>
                 (case update w1 this1 ?o2 of Inl e \<Rightarrow> False | Inr (w2, this2) \<Rightarrow> True))"
    by (simp add: eval_defs)
  from Inr_caseD[OF ev] obtain w1 this1 where
    r1: "new_CodeMirrorInstance world0 CM0 0 ?o1 = Inr (w1, this1)"
    and n: "docs this1 ''y.css'' = None" "next_doc w1 = 2"
    and ev2: "(case update w1 this1 ?o2 of Inl e \<Rightarrow> False | Inr (w2, this2) \<Rightarrow> True)"
    by blast
  from Inr_caseD[OF ev2] obtain w2 this2 where r2: "update w1 this1 ?o2 = Inr (w2, this2)"
    by blast
  from displayed_doc_is_registered_doc[THEN conjunct1, rule_format, OF r1]
  obtain ed1 where f1: "editor this1 = Some ed1" "docs this1 ''x.js'' = Some (getDoc ed1)"
     "getDoc ed1 = 1" "doc_value (heap w1 1) = ''a''" "modeOption (heap w1 1) = JStr ''jsx''"
    by (auto simp: plain_options_def registry_key_def world0_def config_get_def)
  from displayed_doc_is_registered_doc[THEN conjunct2, rule_format, OF r2] n
  obtain ed2 where f2: "editor this2 = Some ed2" "docs this2 ''y.css'' = Some (getDoc ed2)"
     "getDoc ed2 = 2" "doc_value (heap w2 2) = ''b''" "modeOption (heap w2 2) = JStr ''css''"
    by (auto simp: plain_options_def registry_key_def config_get_def)
  from r1 f1 r2 f2 show ?thesis by blast
qed

text \<open>
  C7 as stated fails when the options pass a \<open>doc\<close> object. An instance is constructed
  for \<open>x.js\<close> with the value \<open>a\<close>, which creates document 1. Nothing is registered
  under \<open>y.js\<close>, and yet the update to \<open>y.js\<close> with the value \<open>b\<close> that passes document
  1 creates no document: it registers and displays document 1, whose text is \<open>a\<close>.
\<close>

theorem explicit_doc_is_displayed_without_creating_one:
  "(case new_CodeMirrorInstance world0 CM0 0 (plain_options ''a'' ''x.js'' []) of
      Inl e \<Rightarrow> False
    | Inr (w1, this1) \<Rightarrow>
        docs this1 ''y.js'' = None \<and>
        (case update w1 this1 ((plain_options ''b'' ''y.js'' [])\<lparr>doc := Some 1\<rparr>) of
           Inl e \<Rightarrow> False
         | Inr (w2, this2) \<Rightarrow>
             next_doc w2 = next_doc w1 \<and> docs this2 ''y.js'' = Some 1 \<and>
             map_option getDoc (editor this2) = Some 1 \<and> doc_value (heap w2 1) = ''a''))"
  by (simp add: eval_defs)

text \<open>
  C2, as the code has it. Three updates that switch the identifier from A to B and back
  to A, the last one passing no \<open>doc\<close> object (nor the second one, should B be the
  identifier A), display at the end the document object that was displayed under A. No
  update removes a key of the registry, and the update under B leaves the state of A's
  document as it was when B's document is a different object.
\<close>

theorem docName_switch_restores_document:
  assumes "update w0 this0 optsA = Inr (w1, this1)"
    and "update w1 this1 optsB = Inr (w2, this2)"
    and "update w2 this2 optsA' = Inr (w3, this3)"
    and "registry_key optsA' = registry_key optsA"
    and "registry_key optsB \<noteq> registry_key optsA \<or> doc optsB = None"
    and "doc optsA' = None"
  shows "\<exists>ed1 ed2 ed3.
           editor this1 = Some ed1 \<and> editor this2 = Some ed2 \<and> editor this3 = Some ed3 \<and>
           getDoc ed3 = getDoc ed1 \<and>
           dom (docs this0) \<subseteq> dom (docs this1) \<and> dom (docs this1) \<subseteq> dom (docs this2) \<and>
           dom (docs this2) \<subseteq> dom (docs this3) \<and>
           (getDoc ed2 \<noteq> getDoc ed1 \<longrightarrow> heap w2 (getDoc ed1) = heap w1 (getDoc ed1))"
proof -
  from update_result[OF assms(1)] obtain ed1 where
    e1: "editor this1 = Some ed1"
    and r1: "docs this1 = (docs this0)(registry_key optsA \<mapsto> getDoc ed1)"
    by (elim exE conjE) (rule that, assumption, simp)
  from update_result[OF assms(2)] obtain d2 v1 ed1' ed2 where
    u2: "updateDocIfRequired w1 (this1\<lparr>options := optsB\<rparr>) =
          Inr (d2, v1, this2\<lparr>editor := Some ed1'\<rparr>)"
    and e2: "editor this2 = Some ed2" "getDoc ed2 = d2"
    and r2: "docs this2 = (docs this1)(registry_key optsB \<mapsto> d2)"
    and h2: "\<forall>d'. d' \<noteq> d2 \<longrightarrow> heap w2 d' = heap v1 d'"
    by (elim exE conjE) (rule that; assumption)
  from update_result[OF assms(3)] obtain d3 v2 ed2' ed3 where
    u3: "updateDocIfRequired w2 (this2\<lparr>options := optsA'\<rparr>) =
          Inr (d3, v2, this3\<lparr>editor := Some ed2'\<rparr>)"
    and e3: "editor this3 = Some ed3" "getDoc ed3 = d3"
    and r3: "docs this3 = (docs this2)(registry_key optsA' \<mapsto> d3)"
    by (elim exE conjE) (rule that; assumption)
  have "docs this2 (registry_key optsA') = Some (getDoc ed1)"
  proof (cases "registry_key optsB = registry_key optsA")
    case False
    with r1 r2 assms(4) show ?thesis by simp
  next
    case True
    with assms(5) have "doc optsB = None" by simp
    with updateDocIfRequired_given(1)[OF u2, of "getDoc ed1"] r1 True have "d2 = getDoc ed1"
      by simp
    with r2 True assms(4) show ?thesis by simp
  qed
  with updateDocIfRequired_given(1)[OF u3, of "getDoc ed1"] assms(6) have same: "d3 = getDoc ed1"
    by simp
  have frame: "getDoc ed2 \<noteq> getDoc ed1 \<longrightarrow> heap w2 (getDoc ed1) = heap w1 (getDoc ed1)"
  proof
    assume ne: "getDoc ed2 \<noteq> getDoc ed1"
    with e2 h2 have a: "heap w2 (getDoc ed1) = heap v1 (getDoc ed1)" by simp
    have "heap v1 (getDoc ed1) = heap w1 (getDoc ed1)"
    proof (cases "doc optsB = None \<and> docs this1 (registry_key optsB) = None")
      case True
      from updateDocIfRequired_created(1)[OF u2] True have "d2 = next_doc w1" by simp
      with ne e2 have "getDoc ed1 \<noteq> next_doc w1" by simp
      from updateDocIfRequired_created(5)[OF u2 _ _ this] True show ?thesis by simp
    next
      case False
      then obtain d0 where "doc optsB = Some d0 \<or>
         (doc optsB = None \<and> docs this1 (registry_key optsB) = Some d0)"
        by (cases "doc optsB") auto
      from updateDocIfRequired_given(3)[OF u2, of d0] this show ?thesis by simp
    qed
    with a show "heap w2 (getDoc ed1) = heap w1 (getDoc ed1)" by simp
  qed
  from e1 e2 e3 same r1 r2 r3 frame show ?thesis by auto
qed

theorem docName_switch_restores_document_witness:
  "\<exists>w0 this0 w1 this1 w2 this2 w3 this3.
     new_CodeMirrorInstance world0 CM0 0 (plain_options ''a'' ''x.js'' []) = Inr (w0, this0) \<and>
     update w0 this0 (plain_options ''a'' ''x.js'' []) = Inr (w1, this1) \<and>
     update w1 this1 (plain_options ''b'' ''y.js'' []) = Inr (w2, this2) \<and>
     update w2 this2 (plain_options ''c'' ''x.js'' []) = Inr (w3, this3) \<and>
     map_option getDoc (editor this1) = Some 1 \<and>
     map_option getDoc (editor this2) = Some 2 \<and>
     map_option getDoc (editor this3) = Some 1 \<and>
     heap w2 1 = heap w1 1"
proof -
  let ?a = "plain_options ''a'' ''x.js'' []"
  let ?b = "plain_options ''b'' ''y.js'' []"
  let ?c = "plain_options ''c'' ''x.js'' []"
  have ev: "(case new_CodeMirrorInstance world0 CM0 0 ?a of
               Inl e \<Rightarrow> False
             | Inr (w0, this0) \<Rightarrow>
                 (case update w0 this0 ?a of
                    Inl e \<Rightarrow> False
                  | Inr (w1, this1) \<Rightarrow>
                      map_option getDoc (editor this1) = Some 1 \<and>
                      (case update w1 this1 ?b of
                         Inl e \<Rightarrow> False
                       | Inr (w2, this2) \<Rightarrow>
                           map_option getDoc (editor this2) = Some 2 \<and>
                           (case update w2 this2 ?c of
                              Inl e \<Rightarrow> False
                            | Inr (w3, this3) \<Rightarrow> True))))"
    by (simp add: eval_defs)
  from Inr_caseD[OF ev] obtain w0 this0 where
    r0: "new_CodeMirrorInstance world0 CM0 0 ?a = Inr (w0, this0)"
    and ev1: "(case update w0 this0 ?a of
                    Inl e \<Rightarrow> False
                  | Inr (w1, this1) \<Rightarrow>
                      map_option getDoc (editor this1) = Some 1 \<and>
                      (case update w1 this1 ?b of
                         Inl e \<Rightarrow> False
                       | Inr (w2, this2) \<Rightarrow>
                           map_option getDoc (editor this2) = Some 2 \<and>
                           (case update w2 this2 ?c of
                              Inl e \<Rightarrow> False
                            | Inr (w3, this3) \<Rightarrow> True)))"
    by blast
  from Inr_caseD[OF ev1] obtain w1 this1 where
    r1: "update w0 this0 ?a = Inr (w1, this1)"
    and g1: "map_option getDoc (editor this1) = Some 1"
    and ev2: "(case update w1 this1 ?b of
                    Inl e \<Rightarrow> False
                  | Inr (w2, this2) \<Rightarrow>
                      map_option getDoc (editor this2) = Some 2 \<and>
                      (case update w2 this2 ?c of
                         Inl e \<Rightarrow> False
                       | Inr (w3, this3) \<Rightarrow> True))"
    by blast
  from Inr_caseD[OF ev2] obtain w2 this2 where
    r2: "update w1 this1 ?b = Inr (w2, this2)"
    and g2: "map_option getDoc (editor this2) = Some 2"
    and ev3: "(case update w2 this2 ?c of Inl e \<Rightarrow> False | Inr (w3, this3) \<Rightarrow> True)"
    by blast
  from Inr_caseD[OF ev3] obtain w3 this3 where r3: "update w2 this2 ?c = Inr (w3, this3)"
    by blast
  from docName_switch_restores_document[OF r1 r2 r3] g1 g2
  have "map_option getDoc (editor this3) = Some 1 \<and> heap w2 1 = heap w1 1"
    by (auto simp: plain_options_def registry_key_def)
  with r0 r1 r2 r3 g1 g2 show ?thesis by blast
qed

text \<open>
  C2 as stated fails when the update that returns to \<open>x.js\<close> passes a \<open>doc\<close> object.
  An instance is constructed for \<open>x.js\<close> and updated once: document 1 is displayed under
  \<open>x.js\<close>. The switch to \<open>y.js\<close> creates and displays document 2. The switch back to
  \<open>x.js\<close> that passes document 2 leaves document 2 displayed and registers it under
  \<open>x.js\<close> in place of document 1.
\<close>

theorem explicit_doc_overrides_registered_document:
  "(case new_CodeMirrorInstance world0 CM0 0 (plain_options ''a'' ''x.js'' []) of
      Inl e \<Rightarrow> False
    | Inr (w0, this0) \<Rightarrow>
        (case update w0 this0 (plain_options ''a'' ''x.js'' []) of
           Inl e \<Rightarrow> False
         | Inr (w1, this1) \<Rightarrow>
             (case update w1 this1 (plain_options ''b'' ''y.js'' []) of
                Inl e \<Rightarrow> False
              | Inr (w2, this2) \<Rightarrow>
                  (case update w2 this2 ((plain_options ''a'' ''x.js'' [])\<lparr>doc := Some 2\<rparr>) of
                     Inl e \<Rightarrow> False
                   | Inr (w3, this3) \<Rightarrow>
                       map_option getDoc (editor this1) = Some 1 \<and>
                       map_option getDoc (editor this2) = Some 2 \<and>
                       map_option getDoc (editor this3) = Some 2 \<and>
                       map_option getDoc (editor this3) \<noteq> map_option getDoc (editor this1) \<and>
                       docs this3 ''x.js'' = Some 2))))"
  by (simp add: eval_defs)

section \<open>Properties of the configuration defaulting\<close>

lemma config_get_update:
  "config_get (AList.update k v al) k' = (if k' = k then v else config_get al k')"
  by (simp add: config_get_def update_conv')

lemma config_get_spread:
  "k \<notin> fst ` set rest \<Longrightarrow> config_get (spread base rest) k = config_get base k"
  unfolding spread_def
  by (induction rest arbitrary: base) (auto simp: config_get_update)

lemma split_on_not_Nil: "split_on sep s \<noteq> []"
  by (induction s) (auto split: list.splits)

lemma split_on_no_sep: "sep \<notin> set s \<Longrightarrow> split_on sep s = [s]"
  by (induction s) auto

lemma split_on_append:
  "\<exists>xs. xs \<noteq> [] \<and> split_on sep (pre @ sep # ext) = xs @ split_on sep ext"
proof (induction pre)
  case Nil
  show ?case by (rule exI[of _ "[[]]"]) simp
next
  case (Cons a pre)
  then obtain xs where xs: "xs \<noteq> []" "split_on sep (pre @ sep # ext) = xs @ split_on sep ext"
    by blast
  then obtain p ps where ps: "xs = p # ps" by (cases xs) auto
  show ?case
  proof (cases "a = sep")
    case True
    with xs show ?thesis by (intro exI[of _ "[] # xs"]) simp
  next
    case False
    with xs ps show ?thesis by (intro exI[of _ "(a # p) # ps"]) simp
  qed
qed

lemma last_split_on_append:
  "last (split_on sep (pre @ sep # ext)) = last (split_on sep ext)"
proof -
  from split_on_append[of sep pre ext] obtain xs where
    "split_on sep (pre @ sep # ext) = xs @ split_on sep ext" by blast
  then show ?thesis by (simp add: split_on_not_Nil)
qed

lemma hd_rev_split_on:
  "sep \<notin> set ext \<Longrightarrow> \<exists>xs. rev (split_on sep (pre @ sep # ext)) = ext # xs"
proof -
  assume a: "sep \<notin> set ext"
  have n: "split_on sep (pre @ sep # ext) \<noteq> []" by (rule split_on_not_Nil)
  have "last (split_on sep (pre @ sep # ext)) = ext"
    using last_split_on_append[of sep pre ext] split_on_no_sep[OF a] by simp
  with n have "hd (rev (split_on sep (pre @ sep # ext))) = ext"
    by (simp add: hd_rev)
  with n show ?thesis
    by (cases "rev (split_on sep (pre @ sep # ext))") auto
qed

lemma getDefaultMode_suffix:
  "CHR ''.'' \<notin> set ext \<Longrightarrow> getDefaultMode (Some (pre @ CHR ''.'' # ext)) = JStr ext"
  using hd_rev_split_on[of "CHR ''.''" ext pre]
  by (auto simp: getDefaultMode_def)

lemma memo_hit_SomeD:
  "memo_hit cell deps = Some v \<Longrightarrow> \<exists>prev. cell = Some (prev, v) \<and> areHookInputsEqual deps prev"
  by (auto simp: memo_hit_def split: option.splits if_splits)

lemma useEditorConfiguration_mode:
  assumes "memo_ok m" and "useEditorConfiguration m cfg name = (c, m')"
  shows "config_get c ''mode'' =
           mode_alias (if \<not> truthy (config_get (case cfg of None \<Rightarrow> [] | Some x \<Rightarrow> x) ''mode'')
                       then getDefaultMode name
                       else config_get (case cfg of None \<Rightarrow> [] | Some x \<Rightarrow> x) ''mode'') \<and>
         memo_ok m'"
proof -
  define cf where "cf = (case cfg of None \<Rightarrow> [] | Some x \<Rightarrow> x)"
  define extraKeys where "extraKeys = config_get cf ''extraKeys''"
  define rest where "rest = filter (\<lambda>(k, v). k \<noteq> ''extraKeys'' \<and> k \<noteq> ''mode'') cf"
  define mode where "mode = (if \<not> truthy (config_get cf ''mode'') then getDefaultMode name
                             else config_get cf ''mode'')"
  define em where "em =
            (case memo_hit (extraKeys_cell m) [extraKeys] of
               Some v \<Rightarrow> (v, m)
             | None \<Rightarrow>
                 (case extraKeys of
                    JStr s \<Rightarrow> (extraKeys, m\<lparr>extraKeys_cell := Some ([extraKeys], extraKeys)\<rparr>)
                  | _ \<Rightarrow>
                      (JObj (next_obj m) ''[object Object]'',
                       m\<lparr>extraKeys_cell :=
                           Some ([extraKeys], JObj (next_obj m) ''[object Object]''),
                         next_obj := Suc (next_obj m)\<rparr>)))"
  have cc: "config_cell (snd em) = config_cell m"
    by (simp add: em_def split: option.splits jsval.splits)
  define deps where "deps = extraKeys # mode # map snd rest"
  define fresh where "fresh = spread
                        [(''autoCloseBrackets'', JBool True),
                         (''indentWithTabs'', JBool False),
                         (''extraKeys'', fst em),
                         (''keyMap'', JStr ''sublime''),
                         (''matchBrackets'', JBool True),
                         (''matchTags'', defaultMatchTagsConfig),
                         (''mode'', mode_alias mode),
                         (''scrollbarStyle'', JStr ''simple''),
                         (''smartIndent'', JBool False),
                         (''styleActiveLine'', JBool True),
                         (''tabSize'', JNum 2)]
                        rest"
  have u: "useEditorConfiguration m cfg name =
             (case memo_hit (config_cell (snd em)) deps of
                Some c \<Rightarrow> (c, snd em)
              | None \<Rightarrow> (fresh, (snd em)\<lparr>config_cell := Some (deps, fresh)\<rparr>))"
    unfolding useEditorConfiguration_def Let_def cf_def[symmetric] extraKeys_def[symmetric]
      rest_def[symmetric] mode_def[symmetric] em_def[symmetric]
    by (cases em) (simp add: deps_def fresh_def split: option.splits)
  have nr: "''mode'' \<notin> fst ` set rest"
    by (auto simp: rest_def)
  have fm: "config_get fresh ''mode'' = mode_alias mode"
    unfolding fresh_def by (subst config_get_spread[OF nr]) (simp add: config_get_def)
  show ?thesis
  proof (cases "memo_hit (config_cell (snd em)) deps")
    case None
    with u assms(2) have "c = fresh" "m' = (snd em)\<lparr>config_cell := Some (deps, fresh)\<rparr>"
      by simp_all
    with fm show ?thesis
      unfolding cf_def[symmetric] mode_def[symmetric]
      by (simp add: memo_ok_def deps_def)
  next
    case (Some c0)
    with u assms(2) have e: "c = c0" "m' = snd em" by simp_all
    from memo_hit_SomeD[OF Some] cc obtain prev where
      p: "config_cell m = Some (prev, c0)" "areHookInputsEqual deps prev" by auto
    from assms(1) p(1) obtain e0 mode1 vs where
      pv: "prev = e0 # mode1 # vs" "config_get c0 ''mode'' = mode_alias mode1"
      by (auto simp: memo_ok_def split: list.splits)
    from p(2) pv(1) have "mode1 = mode"
      by (simp add: areHookInputsEqual_def deps_def)
    with pv e assms(1) cc show ?thesis
      unfolding cf_def[symmetric] mode_def[symmetric]
      by (simp add: memo_ok_def)
  qed
qed

lemma modeAliases_no_member:
  "key \<in> set object_prototype_members \<Longrightarrow> map_of modeAliases key = None"
  by (auto simp: object_prototype_members_def modeAliases_def)

lemma modeAliases_member_table:
  "modeAliases_member key =
     (if key = ''js'' then JStr ''jsx'' else if key = ''html'' then JStr ''htmlmixed''
      else if key = ''md'' \<or> key = ''mdx'' then JStr ''markdown''
      else if key = ''scss'' then JStr ''text/x-scss''
      else if key \<in> set object_prototype_members then JInherited key
      else JUndefined)"
  by (simp add: modeAliases_member_def modeAliases_def)

lemma mode_alias_table:
  "ext \<notin> set object_prototype_members \<Longrightarrow>
   mode_alias (JStr ext) =
     JStr (if ext = ''js'' then ''jsx'' else if ext = ''html'' then ''htmlmixed''
           else if ext = ''md'' then ''markdown'' else if ext = ''mdx'' then ''markdown''
           else if ext = ''scss'' then ''text/x-scss'' else ext)"
  by (simp add: mode_alias_def modeAliases_member_table)

lemma mode_alias_inherited:
  "ext \<in> set object_prototype_members \<Longrightarrow> mode_alias (JStr ext) = JInherited ext"
  using modeAliases_no_member[of ext]
  by (simp add: mode_alias_def modeAliases_member_def)

lemma mode_alias_other:
  "mode_alias JUndefined = JUndefined" "mode_alias JNull = JNull"
  "mode_alias (JBool b) = JBool b" "mode_alias (JNum i) = JNum i"
  "mode_alias (JInherited s) = JInherited s"
  "mode_alias (JObj r s) = (if truthy (modeAliases_member s) then modeAliases_member s else JObj r s)"
  by (simp_all add: mode_alias_def)

lemma last_split_on:
  "last (split_on sep n) = rev (takeWhile (\<lambda>c. c \<noteq> sep) (rev n))"
proof (cases "sep \<in> set n")
  case False
  then have "takeWhile (\<lambda>c. c \<noteq> sep) (rev n) = rev n"
    by (intro takeWhile_eq_all_conv[THEN iffD2]) auto
  then have "rev (takeWhile (\<lambda>c. c \<noteq> sep) (rev n)) = n" by (simp only: rev_rev_ident)
  moreover from False have "last (split_on sep n) = n" by (simp add: split_on_no_sep)
  ultimately show ?thesis by (simp only:)
next
  case True
  then obtain pre ext where n: "n = pre @ sep # ext" "sep \<notin> set ext"
    by (auto dest: split_list_last)
  have "takeWhile (\<lambda>c. c \<noteq> sep) (rev ext @ sep # rev pre) = rev ext"
    using n(2) by (intro takeWhile_tail[THEN trans]) (auto simp: takeWhile_eq_all_conv)
  with n show ?thesis
    by (simp add: last_split_on_append split_on_no_sep)
qed

lemma getDefaultMode_after_last_dot:
  "n \<noteq> [] \<Longrightarrow> getDefaultMode (Some n) = JStr (after_last_dot n)"
proof -
  assume "n \<noteq> []"
  have "hd (rev (split_on CHR ''.'' n)) = after_last_dot n"
    using last_split_on[of "CHR ''.''" n]
    by (simp add: hd_rev split_on_not_Nil after_last_dot_def)
  with \<open>n \<noteq> []\<close> show ?thesis
    using split_on_not_Nil[of "CHR ''.''" n]
    by (cases "rev (split_on CHR ''.'' n)") (auto simp: getDefaultMode_def)
qed

lemma after_last_dot_suffix:
  "CHR ''.'' \<notin> set ext \<Longrightarrow> after_last_dot (pre @ CHR ''.'' # ext) = ext"
  using getDefaultMode_suffix[of ext pre] getDefaultMode_after_last_dot[of "pre @ CHR ''.'' # ext"]
  by simp

lemma getDefaultMode_absent:
  "getDefaultMode None = JUndefined" "getDefaultMode (Some []) = JStr []"
  by (simp_all add: getDefaultMode_def)

lemmas config_eval_defs = useEditorConfiguration_def memo_hit_def areHookInputsEqual_def
  spread_def config_get_def getDefaultMode_def mode_alias_def modeAliases_member_def
  modeAliases_def object_prototype_members_def memo0_def
  defaultMatchTagsConfig_def after_last_dot_def memo_ok_def Let_def


text \<open>
  The mode of the resolved configuration: the given mode when it is truthy, else the
  suffix of a non-empty document name after its last \<open>.\<close>, looked up in the alias
  table. A string that is no name of \<open>Object.prototype\<close> is mapped through the five
  aliases and is otherwise unchanged; a string that is such a name is replaced by the
  inherited member.
\<close>

lemma mode_of_resolved_configuration:
  assumes "memo_ok m" and "useEditorConfiguration m cfg name = (c, m')"
  shows "(\<not> truthy (config_get (case cfg of None \<Rightarrow> [] | Some x \<Rightarrow> x) ''mode'') \<longrightarrow>
          name = Some n \<longrightarrow> n \<noteq> [] \<longrightarrow>
            config_get c ''mode'' = mode_alias (JStr (after_last_dot n))) \<and>
         (truthy (config_get (case cfg of None \<Rightarrow> [] | Some x \<Rightarrow> x) ''mode'') \<longrightarrow>
            config_get c ''mode'' =
              mode_alias (config_get (case cfg of None \<Rightarrow> [] | Some x \<Rightarrow> x) ''mode'')) \<and>
         (\<forall>s. s \<notin> set object_prototype_members \<longrightarrow>
            mode_alias (JStr s) =
              (if s = ''js'' then JStr ''jsx''
               else if s = ''html'' then JStr ''htmlmixed''
               else if s = ''md'' \<or> s = ''mdx'' then JStr ''markdown''
               else if s = ''scss'' then JStr ''text/x-scss''
               else JStr s)) \<and>
         (\<forall>s. s \<in> set object_prototype_members \<longrightarrow> mode_alias (JStr s) = JInherited s)"
proof -
  note r = useEditorConfiguration_mode[OF assms, THEN conjunct1]
  show ?thesis
    using r by (auto simp: getDefaultMode_after_last_dot mode_alias_table mode_alias_inherited)
qed

text \<open>
  C9. The alias table is an object literal, and \<open>modeAliases[mode] || mode\<close> also finds
  what the object inherits. With the document name \<open>x.constructor\<close> and no mode, the
  suffix after the last \<open>.\<close> is \<open>constructor\<close>, which is none of the five aliases; the
  resolved mode is not that string but the built-in function the table inherits under
  the name. A mode given as \<open>toString\<close> is replaced likewise. For \<open>x.js\<close> the mode is
  \<open>jsx\<close>.
\<close>

theorem inherited_name_resolves_to_builtin_member:
  "after_last_dot ''x.constructor'' = ''constructor'' \<and>
   map_of modeAliases ''constructor'' = None \<and>
   config_get (fst (useEditorConfiguration memo0 None (Some ''x.constructor''))) ''mode''
     = JInherited ''constructor'' \<and>
   config_get (fst (useEditorConfiguration memo0 None (Some ''x.constructor''))) ''mode''
     \<noteq> JStr ''constructor'' \<and>
   config_get (fst (useEditorConfiguration memo0 (Some [(''mode'', JStr ''toString'')])
                      (Some ''x.js''))) ''mode''
     = JInherited ''toString'' \<and>
   config_get (fst (useEditorConfiguration memo0 None (Some ''x.js''))) ''mode'' = JStr ''jsx''"
  by (simp add: config_eval_defs update_conv')

section \<open>Properties of the hook\<close>

lemma useCodeMirror_refs:
  assumes "useCodeMirror (Some s) opts = (r, iopts, s')"
  shows "instanceRef s' = instanceRef s \<and> isMounted s' = isMounted s \<and> load s' = load s \<and>
         rc_editor r = (case instanceRef s of None \<Rightarrow> None | Some i \<Rightarrow> editor i)"
  using assms
  by (auto simp: useCodeMirror_def Let_def split: prod.splits option.splits)

lemma step_unmounted:
  assumes "instanceRef s = None" and "\<not> isMounted s" and "ev \<noteq> Unmount"
  shows "\<exists>s'. step ev (w, s) = Inr (w, s') \<and> instanceRef s' = None \<and> \<not> isMounted s'"
proof (cases ev)
  case (Render opts)
  obtain r iopts s1 where u: "useCodeMirror (Some s) opts = (r, iopts, s1)"
    by (cases "useCodeMirror (Some s) opts") auto
  from useCodeMirror_refs[OF u] assms have "instanceRef s1 = None" "\<not> isMounted s1" by auto
  with Render u show ?thesis by (simp add: layoutEffect_def)
next
  case (Loaded node CM)
  with assms show ?thesis by (cases "load s") (simp_all add: onLoaded_def)
next
  case Unmount
  with assms show ?thesis by simp
qed

lemma run_unmounted:
  assumes "instanceRef s = None" and "\<not> isMounted s" and "Unmount \<notin> set evs"
  shows "\<exists>s'. run evs (w, s) = Inr (w, s') \<and> instanceRef s' = None \<and> \<not> isMounted s'"
  using assms
proof (induction evs arbitrary: s)
  case Nil
  then show ?case by simp
next
  case (Cons ev evs)
  from Cons.prems have "ev \<noteq> Unmount" "Unmount \<notin> set evs" by auto
  from step_unmounted[OF Cons.prems(1,2) this(1), of w] obtain s1 where
    s: "step ev (w, s) = Inr (w, s1)" "instanceRef s1 = None" "\<not> isMounted s1" by blast
  from Cons.IH[OF s(2,3) \<open>Unmount \<notin> set evs\<close>] s(1) show ?case by simp
qed

lemma cleanup_returns:
  assumes "cleanup (w, s) = (None, (w', s'))"
  shows "instanceRef s' = None \<and> externalRef s' = None \<and> nodePromiseRef s' = None \<and>
         \<not> isMounted s' \<and> load s' = load s \<and> \<not> refs_sealed w'"
  using assms
  by (auto simp: cleanup_def Let_def split: option.splits sum.splits if_splits)

lemma cleanup_raises:
  assumes "cleanup (w, s) = (Some e, (w', s'))"
  shows "\<not> isMounted s' \<and> load s' = load s \<and> externalRef s' = externalRef s \<and>
         nodePromiseRef s' = nodePromiseRef s \<and>
         (instanceRef s = None \<longrightarrow> instanceRef s' = None \<and> w' = w \<and> refs_sealed w)"
  using assms
  by (auto simp: cleanup_def Let_def split: option.splits sum.splits if_splits)

lemma step_Unmount_Inr:
  "step Unmount (w, s) = Inr (w', s') \<longleftrightarrow> cleanup (w, s) = (None, (w', s'))"
  by (cases "cleanup (w, s)") (auto split: option.splits)

text \<open>
  Whether or not the cleanup raises, a hook that is unmounted while the load is pending
  and no instance exists has a cleared \<open>isMounted\<close> and a load that is still pending;
  the load's completion attaches no instance, and neither does any later sequence of
  renders and load completions. The external ref and the node-promise ref are released
  exactly when the ref objects are not sealed.
\<close>

lemma unmount_guard_and_release:
  assumes "load s = Pending a b" and "instanceRef s = None"
  shows "\<exists>s1. cleanup (w, s) = ((if refs_sealed w then Some TypeError else None), (w, s1)) \<and>
            load s1 = Pending a b \<and> \<not> isMounted s1 \<and> instanceRef s1 = None \<and>
            (\<not> refs_sealed w \<longrightarrow> externalRef s1 = None \<and> nodePromiseRef s1 = None) \<and>
            (refs_sealed w \<longrightarrow>
               externalRef s1 = externalRef s \<and> nodePromiseRef s1 = nodePromiseRef s) \<and>
            (\<exists>s2. step (Loaded node CM) (w, s1) = Inr (w, s2) \<and>
                   instanceRef s2 = None \<and> load s2 = Settled) \<and>
            (\<forall>evs v. Unmount \<notin> set evs \<longrightarrow>
               (\<exists>s2. run evs (v, s1) = Inr (v, s2) \<and> instanceRef s2 = None))"
proof -
  define s1 where "s1 = (if refs_sealed w then s\<lparr>isMounted := False\<rparr>
     else s\<lparr>isMounted := False, instanceRef := None, externalRef := None,
             nodePromiseRef := None\<rparr>)"
  have u: "cleanup (w, s) = ((if refs_sealed w then Some TypeError else None), (w, s1))"
    using assms(2) by (simp add: cleanup_def Let_def s1_def)
  have f: "load s1 = Pending a b" "instanceRef s1 = None" "\<not> isMounted s1"
    "\<not> refs_sealed w \<longrightarrow> externalRef s1 = None \<and> nodePromiseRef s1 = None"
    "refs_sealed w \<longrightarrow> externalRef s1 = externalRef s \<and> nodePromiseRef s1 = nodePromiseRef s"
    using assms by (simp_all add: s1_def)
  have l: "step (Loaded node CM) (w, s1) = Inr (w, s1\<lparr>load := Settled\<rparr>)"
    using f by (simp add: onLoaded_def)
  have r: "\<forall>evs v. Unmount \<notin> set evs \<longrightarrow>
               (\<exists>s2. run evs (v, s1) = Inr (v, s2) \<and> instanceRef s2 = None)"
    using run_unmounted[OF f(2) f(3)] by blast
  from u f l r show ?thesis
    by (intro exI[of _ s1]) simp
qed

lemmas hook_eval_defs = mount_def useCodeMirror_def layoutEffect_def mountEffect_def
  onLoaded_def cleanup_def with_config_def plain_use_options_def call_focus_def world_dev_def

text \<open>
  C8. Where the framework seals the ref objects, the cleanup raises at its first
  \<open>delete\<close> and releases nothing. Mounted in such a world and unmounted while the load is
  pending, the hook has cleared \<open>isMounted\<close>, so the load's completion attaches no
  instance, and the load is still pending after the cleanup; but the cleanup ends in a
  \<open>TypeError\<close>, and the external ref and the node-promise ref hold what they held.
  Unmounted after the load, the instance ref still holds the instance, disposed of.
\<close>

theorem unmount_with_sealed_refs_raises_and_releases_nothing:
  "(case mount world_dev (plain_use_options ''a'' ''x.js'') of
      Inl e \<Rightarrow> False
    | Inr (w, s) \<Rightarrow>
        refs_sealed w \<and> isMounted s \<and> load s = Pending None None \<and> instanceRef s = None \<and>
        externalRef s = Some 0 \<and> nodePromiseRef s = Some 0 \<and>
        step Unmount (w, s) = Inl TypeError \<and>
        (case cleanup (w, s) of
           (raised, (w', s')) \<Rightarrow>
             raised = Some TypeError \<and> \<not> isMounted s' \<and> load s' = Pending None None \<and>
             instanceRef s' = None \<and> externalRef s' = Some 0 \<and> nodePromiseRef s' = Some 0 \<and>
             (case step (Loaded 0 CM0) (w', s') of
                Inl e \<Rightarrow> False
              | Inr (w2, s2) \<Rightarrow> instanceRef s2 = None \<and> load s2 = Settled)) \<and>
        (case step (Loaded 0 CM0) (w, s) of
           Inl e \<Rightarrow> False
         | Inr (w1, s1) \<Rightarrow>
             instanceRef s1 \<noteq> None \<and>
             (case cleanup (w1, s1) of
                (raised, (w', s')) \<Rightarrow>
                  raised = Some TypeError \<and> \<not> isMounted s' \<and>
                  map_option editor (instanceRef s') = Some None \<and>
                  externalRef s' = Some 0 \<and> nodePromiseRef s' = Some 0)))"
  by (simp add: hook_eval_defs eval_defs dispose_def config_eval_defs update_conv' split: prod.splits)

text \<open>
  C10. The \<open>focus\<close> function returned by a render is a no-op (the world, with its record of
  calls, is unchanged) when that render is the first one, when the instance ref is
  empty, and after an unmount; when the instance ref holds an instance with an editor,
  the function makes exactly one \<open>focus\<close> call on it.
\<close>

theorem focus_without_editor_is_noop:
  assumes "useCodeMirror prev opts = (r, iopts, s')"
  shows "(prev = None \<longrightarrow> rc_editor r = None \<and> call_focus r w = w) \<and>
         (\<forall>s. prev = Some s \<longrightarrow> instanceRef s = None \<longrightarrow>
            rc_editor r = None \<and> call_focus r w = w) \<and>
         (\<forall>s v t v'. prev = Some s \<longrightarrow> step Unmount (v, t) = Inr (v', s) \<longrightarrow>
            rc_editor r = None \<and> call_focus r w = w) \<and>
         (\<forall>s i ed. prev = Some s \<longrightarrow> instanceRef s = Some i \<longrightarrow> editor i = Some ed \<longrightarrow>
            rc_editor r = Some ed \<and> call_focus r w = focus w \<and>
            calls (call_focus r w) = calls w @ [Focus])"
proof -
  have e: "rc_editor r =
             (case prev of
                None \<Rightarrow> None
              | Some s \<Rightarrow> (case instanceRef s of None \<Rightarrow> None | Some i \<Rightarrow> editor i))"
    using assms
    by (auto simp: useCodeMirror_def Let_def split: prod.splits option.splits)
  have u: "\<And>s v t v'. step Unmount (v, t) = Inr (v', s) \<Longrightarrow> instanceRef s = None"
    using cleanup_returns unfolding step_Unmount_Inr by blast
  show ?thesis
    using e u by (auto simp: call_focus_def focus_def)
qed

theorem focus_without_editor_is_noop_witness:
  "\<exists>s r iopts s' v t r2 iopts2 t2.
     mount world0 (plain_use_options ''a'' ''x.js'') = Inr (world0, s) \<and>
     instanceRef s = None \<and>
     useCodeMirror (Some s) (plain_use_options ''a'' ''x.js'') = (r, iopts, s') \<and>
     call_focus r world0 = world0 \<and>
     step (Loaded 0 CM0) (world0, s) = Inr (v, t) \<and>
     useCodeMirror (Some t) (plain_use_options ''a'' ''x.js'') = (r2, iopts2, t2) \<and>
     calls (call_focus r2 v) = calls v @ [Focus]"
proof -
  let ?U = "plain_use_options ''a'' ''x.js''"
  have "\<exists>s. mount world0 ?U = Inr (world0, s) \<and>
     load s = Pending None None \<and> instanceRef s = None \<and> isMounted s \<and>
     value_opt (initialOptionsRef s) = Some ''a'' \<and>
     registry_key (initialOptionsRef s) = ''x.js''"
    by (simp add: hook_eval_defs registry_key_def Let_def split: prod.splits)
  then obtain s where m: "mount world0 ?U = Inr (world0, s)"
    "load s = Pending None None" "instanceRef s = None" "isMounted s"
    "value_opt (initialOptionsRef s) = Some ''a''"
    "registry_key (initialOptionsRef s) = ''x.js''" by blast
  obtain r iopts s' where u1: "useCodeMirror (Some s) ?U = (r, iopts, s')"
    by (cases "useCodeMirror (Some s) ?U") auto
  from focus_without_editor_is_noop[OF u1, of world0] m(3)
  have n: "call_focus r world0 = world0" by simp
  from new_CodeMirrorInstance_succeeds[of "initialOptionsRef s" world0 CM0 0] m(5,6)
  obtain v i where c: "new_CodeMirrorInstance world0 CM0 0 (initialOptionsRef s) = Inr (v, i)"
    by (auto simp: object_prototype_members_def)
  from new_CodeMirrorInstance_editor[OF c] obtain ed where ed: "editor i = Some ed" by blast
  define t where "t = s\<lparr>instanceRef := Some i, load := Settled\<rparr>"
  have l: "step (Loaded 0 CM0) (world0, s) = Inr (v, t)"
    using m c by (simp add: onLoaded_def t_def)
  obtain r2 iopts2 t2 where u2: "useCodeMirror (Some t) ?U = (r2, iopts2, t2)"
    by (cases "useCodeMirror (Some t) ?U") auto
  from focus_without_editor_is_noop[OF u2, of v] ed
  have f: "calls (call_focus r2 v) = calls v @ [Focus]" by (auto simp: t_def)
  from m(1,3) u1 n l u2 f show ?thesis by blast
qed

end
